theory Spec2Isabelle
  imports Complex_Main
begin

section \<open>Python values, exceptions and strings\<close>

text \<open>
  The routing agent moves JSON-like Python values between its stages: the slots of the
  routing state, the replies of the worker agents and the final result are dictionaries
  read from \<^verbatim>\<open>json.loads\<close> or built by dictionary literals. They are modelled by
  the datatype \<open>json\<close>; a dictionary is an association list in insertion order (its keys
  are distinct in Python, so \<open>map_of\<close> reads the entry of a key). Numbers are rationals:
  Python's floats are not modelled, and the arithmetic of the assessment functions below
  is the exact arithmetic the floats approximate.

  A Python exception is a value \<open>Exn kind message\<close>; a computation that can raise returns
  \<open>exn + 'a\<close>, with \<open>Inl\<close> the raised exception. \<^verbatim>\<open>except Exception\<close> catches every
  kind below.
\<close>

datatype json =
    JNull
  | JBool bool
  | JNum rat
  | JStr string
  | JList "json list"
  | JObj "(string \<times> json) list"

datatype exn_kind =
  KeyError | IndexError | TypeError | AttributeError | ValueError | JSONDecodeError | TransportError

datatype exn = Exn exn_kind string

fun str_exn :: "exn \<Rightarrow> string" where
  "str_exn (Exn k m) = m"

fun kind_of :: "exn \<Rightarrow> exn_kind" where
  "kind_of (Exn k m) = k"

definition bindE :: "exn + 'a \<Rightarrow> ('a \<Rightarrow> exn + 'b) \<Rightarrow> exn + 'b" where
  "bindE m f = (case m of Inl e \<Rightarrow> Inl e | Inr x \<Rightarrow> f x)"

text \<open>\<^verbatim>\<open>try: m  except K: h\<close> for one exception class \<open>K\<close>.\<close>

definition except_kind :: "exn_kind \<Rightarrow> exn + 'a \<Rightarrow> (exn + 'a) \<Rightarrow> exn + 'a" where
  "except_kind k m h =
     (case m of Inl e \<Rightarrow> (if kind_of e = k then h else Inl e) | Inr x \<Rightarrow> Inr x)"

subsection \<open>Strings\<close>

text \<open>
  Strings are lists of 8-bit characters. \<open>py_lower\<close> and \<open>py_strip\<close> are
  \<^verbatim>\<open>str.lower\<close> and \<^verbatim>\<open>str.strip\<close> on ASCII text: the letters A to Z are
  lowered, and the ASCII white space of Python (space, tab, line feed, vertical tab, form
  feed, carriage return and the four separators 0x1C to 0x1F) is stripped.
\<close>

definition lower_char :: "char \<Rightarrow> char" where
  "lower_char c =
     (case map_of (zip ''ABCDEFGHIJKLMNOPQRSTUVWXYZ'' ''abcdefghijklmnopqrstuvwxyz'') c of
        Some d \<Rightarrow> d
      | None \<Rightarrow> c)"

definition py_lower :: "string \<Rightarrow> string" where
  "py_lower s = map lower_char s"

definition py_isspace :: "char \<Rightarrow> bool" where
  "py_isspace c =
     (c \<in> set [CHR '' '', CHR 0x09, CHR 0x0A, CHR 0x0B, CHR 0x0C, CHR 0x0D,
                CHR 0x1C, CHR 0x1D, CHR 0x1E, CHR 0x1F])"

definition py_strip :: "string \<Rightarrow> string" where
  "py_strip s = rev (dropWhile py_isspace (rev (dropWhile py_isspace s)))"

fun startswith :: "string \<Rightarrow> string \<Rightarrow> bool" where
  "startswith s [] = True"
| "startswith [] (p # ps) = False"
| "startswith (c # cs) (p # ps) = (c = p \<and> startswith cs ps)"

definition endswith :: "string \<Rightarrow> string \<Rightarrow> bool" where
  "endswith s suf = startswith (rev s) (rev suf)"

text \<open>\<^verbatim>\<open>k.endswith((s1, s2, ...))\<close>: some suffix of the tuple matches.\<close>

definition endswith_any :: "string \<Rightarrow> string list \<Rightarrow> bool" where
  "endswith_any s sufs = list_ex (endswith s) sufs"

text \<open>\<^verbatim>\<open>sub in s\<close> on strings: \<open>sub\<close> occurs in \<open>s\<close> as a contiguous substring.\<close>

fun contains :: "string \<Rightarrow> string \<Rightarrow> bool" where
  "contains sub [] = (sub = [])"
| "contains sub (c # cs) = (startswith (c # cs) sub \<or> contains sub cs)"

subsection \<open>Operations on values\<close>

text \<open>\<^verbatim>\<open>d.get(k, default)\<close> on a dictionary.\<close>

definition dict_get :: "(string \<times> json) list \<Rightarrow> string \<Rightarrow> json \<Rightarrow> json" where
  "dict_get d k dflt = (case map_of d k of Some v \<Rightarrow> v | None \<Rightarrow> dflt)"

text \<open>
  \<^verbatim>\<open>k in v\<close> for a string \<open>k\<close>: a key of a dictionary, an element of a list, a
  substring of a string; any other value is not iterable and raises TypeError.
\<close>

fun py_in :: "string \<Rightarrow> json \<Rightarrow> exn + bool" where
  "py_in k (JObj d) = Inr (k \<in> set (map fst d))"
| "py_in k (JList xs) = Inr (JStr k \<in> set xs)"
| "py_in k (JStr s) = Inr (contains k s)"
| "py_in k v = Inl (Exn TypeError ''argument is not iterable'')"

text \<open>Truth value of a value in a condition.\<close>

fun py_truthy :: "json \<Rightarrow> bool" where
  "py_truthy JNull = False"
| "py_truthy (JBool b) = b"
| "py_truthy (JNum r) = (r \<noteq> 0)"
| "py_truthy (JStr s) = (s \<noteq> [])"
| "py_truthy (JList xs) = (xs \<noteq> [])"
| "py_truthy (JObj d) = (d \<noteq> [])"

text \<open>\<^verbatim>\<open>v[k]\<close> for a string key \<open>k\<close>.\<close>

fun py_getitem :: "json \<Rightarrow> string \<Rightarrow> exn + json" where
  "py_getitem (JObj d) k = (case map_of d k of Some v \<Rightarrow> Inr v | None \<Rightarrow> Inl (Exn KeyError k))"
| "py_getitem (JList xs) k = Inl (Exn TypeError ''list indices must be integers or slices, not str'')"
| "py_getitem (JStr s) k = Inl (Exn TypeError ''string indices must be integers'')"
| "py_getitem v k = Inl (Exn TypeError ''object is not subscriptable'')"

text \<open>\<^verbatim>\<open>v[0]\<close>. The keys of a JSON dictionary are strings, so \<open>0\<close> is never one.\<close>

fun py_getitem0 :: "json \<Rightarrow> exn + json" where
  "py_getitem0 (JList []) = Inl (Exn IndexError ''list index out of range'')"
| "py_getitem0 (JList (x # xs)) = Inr x"
| "py_getitem0 (JStr []) = Inl (Exn IndexError ''string index out of range'')"
| "py_getitem0 (JStr (c # cs)) = Inr (JStr [c])"
| "py_getitem0 (JObj d) = Inl (Exn KeyError ''0'')"
| "py_getitem0 v = Inl (Exn TypeError ''object is not subscriptable'')"

text \<open>\<^verbatim>\<open>v.get\<close> exists on dictionaries only; elsewhere the attribute lookup raises.\<close>

fun require_dict :: "json \<Rightarrow> exn + (string \<times> json) list" where
  "require_dict (JObj d) = Inr d"
| "require_dict v = Inl (Exn AttributeError ''object has no attribute 'get' '')"

fun is_dict :: "json \<Rightarrow> bool" where
  "is_dict (JObj d) = True"
| "is_dict v = False"

text \<open>Reading a key of a value, for statements about results: \<open>None\<close> when the value is
  not a dictionary or has no such key.\<close>

fun json_get :: "json \<Rightarrow> string \<Rightarrow> json option" where
  "json_get (JObj d) k = map_of d k"
| "json_get v k = None"

section \<open>The environment of the routing agent\<close>

text \<open>
  A capability descriptor (\<^verbatim>\<open>AgentCard\<close>), with the fields the agent reads; \<open>card_skills\<close>
  are the names of the skills.
\<close>

record AgentCard =
  card_name :: string
  card_description :: string
  card_url :: string
  card_skills :: "string list"

text \<open>
  Everything outside the repository's control flow is a field of the environment:
  \<^item> \<open>available_agents\<close>: the result of discovery, name to descriptor, in insertion order;
  \<^item> \<open>create_agent\<close>: \<^verbatim>\<open>RoutingAgent.create\<close>, which raises when no API key is set;
  \<^item> \<open>classify\<close>: the text-generation call of the route decision, from the query to the
    content of the reply; \<open>summarize\<close>: the one of the aggregation, from the final result;
  \<^item> \<open>render_pdf\<close>: the body of the report renderer, returning the path of the file;
  \<^item> \<open>send_message\<close>: the A2A transport, from the descriptor and the message text to the
    dumped response (or the exception of the transport);
  \<^item> \<open>loads\<close>, \<open>dumps\<close>, \<open>repr\<close>: \<^verbatim>\<open>json.loads\<close> (\<open>None\<close> for JSONDecodeError),
    \<^verbatim>\<open>json.dumps\<close> and the formatting of a value in an f-string; \<open>uuid4\<close>: a fresh id;
  \<^item> the local fallback agents: their \<^verbatim>\<open>create\<close> (which can raise), the document agent's
    \<^verbatim>\<open>process_document\<close>, the credit risk agent's \<^verbatim>\<open>process_document_data\<close>, the
    compliance agent's text analysis, and \<open>search_pdf\<close>, the file name found in the query by
    the regular expression (\<open>None\<close> when it does not match).
\<close>

record env =
  available_agents :: "(string \<times> AgentCard) list"
  create_agent :: "exn option"
  classify :: "string \<Rightarrow> exn + string"
  summarize :: "json \<Rightarrow> exn + string"
  render_pdf :: "json \<Rightarrow> exn + string"
  send_message :: "AgentCard \<Rightarrow> string \<Rightarrow> exn + json"
  loads :: "string \<Rightarrow> json option"
  dumps :: "json \<Rightarrow> string"
  repr :: "json \<Rightarrow> string"
  uuid4 :: string
  document_agent_create :: "exn option"
  search_pdf :: "string \<Rightarrow> string option"
  document_agent_process :: "string \<Rightarrow> exn + json"
  risk_agent_create :: "exn option"
  risk_agent_process :: "json \<Rightarrow> exn + json"
  compliance_agent_create :: "exn option"
  analyze_with_crewai :: "string \<Rightarrow> exn + json"

text \<open>A statement that raises or completes: \<^verbatim>\<open>await agent.create()\<close>.\<close>

definition raising :: "exn option \<Rightarrow> exn + unit" where
  "raising r = (case r of Some e \<Rightarrow> Inl e | None \<Rightarrow> Inr ())"

section \<open>Capability lookup: \<^verbatim>\<open>_get_agent_by_skill\<close>\<close>

definition agent_mapping :: "(string \<times> string) list" where
  "agent_mapping =
     [(''document'', ''document_agent''),
      (''pdf'', ''document_agent''),
      (''extraction'', ''document_agent''),
      (''credit'', ''credit_risk_agent''),
      (''risk'', ''credit_risk_agent''),
      (''financial'', ''credit_risk_agent''),
      (''compliance'', ''compliance_agent''),
      (''regulatory'', ''compliance_agent''),
      (''legal'', ''compliance_agent'')]"

text \<open>The first loop: the direct mapping of a keyword to a registered agent name.\<close>

fun direct_mapping :: "(string \<times> AgentCard) list \<Rightarrow> string list \<Rightarrow> AgentCard option" where
  "direct_mapping agents [] = None"
| "direct_mapping agents (keyword # keywords) =
     (case map_of agent_mapping (py_lower keyword) of
        None \<Rightarrow> direct_mapping agents keywords
      | Some agent_name \<Rightarrow>
          (if agent_name \<noteq> [] \<and> agent_name \<in> set (map fst agents)
           then map_of agents agent_name
           else direct_mapping agents keywords))"

text \<open>\<^verbatim>\<open>" ".join(xs)\<close>.\<close>

fun join_space :: "string list \<Rightarrow> string" where
  "join_space [] = []"
| "join_space [s] = s"
| "join_space (s # t # ts) = s @ '' '' @ join_space (t # ts)"

definition combined_text :: "string \<Rightarrow> AgentCard \<Rightarrow> string" where
  "combined_text name agent_card =
     (let agent_text = py_lower (name @ '' '' @ card_description agent_card);
          skill_text = (if card_skills agent_card \<noteq> []
                        then py_lower (join_space (card_skills agent_card))
                        else [])
      in agent_text @ '' '' @ skill_text)"

text \<open>The second loop: the first agent whose name, description or skills contain a keyword.\<close>

fun text_matching :: "(string \<times> AgentCard) list \<Rightarrow> string list \<Rightarrow> AgentCard option" where
  "text_matching [] skill_keywords = None"
| "text_matching ((name, agent_card) # agents) skill_keywords =
     (if list_ex (\<lambda>keyword. contains (py_lower keyword) (combined_text name agent_card))
           skill_keywords
      then Some agent_card
      else text_matching agents skill_keywords)"

definition get_agent_by_skill :: "env \<Rightarrow> string list \<Rightarrow> AgentCard option" where
  "get_agent_by_skill e skill_keywords =
     (case direct_mapping (available_agents e) skill_keywords of
        Some agent_card \<Rightarrow> Some agent_card
      | None \<Rightarrow> text_matching (available_agents e) skill_keywords)"

section \<open>The worker client: \<^verbatim>\<open>AgentConnector.send_task\<close>\<close>

text \<open>
  The reply's text sits at \<^verbatim>\<open>response_data['result']['status']['message']['parts'][0]['text']\<close>.
\<close>

definition extract_text :: "json \<Rightarrow> exn + json" where
  "extract_text response_data =
     bindE (py_getitem response_data ''result'') (\<lambda>result.
     bindE (py_getitem result ''status'') (\<lambda>status.
     bindE (py_getitem status ''message'') (\<lambda>message.
     bindE (py_getitem message ''parts'') (\<lambda>parts.
     bindE (py_getitem0 parts) (\<lambda>part.
     py_getitem part ''text'')))))"

text \<open>
  \<open>send_task\<close> awaits the transport with no handler around it, so an exception of the
  transport leaves the function. Only KeyError and IndexError of the path are caught,
  and replaced by a descriptive text. The session id is not used by the body.
\<close>

definition send_task :: "env \<Rightarrow> AgentCard \<Rightarrow> string \<Rightarrow> string \<Rightarrow> exn + json" where
  "send_task e agent_card message session_id =
     bindE (send_message e agent_card message) (\<lambda>response_data.
       (case extract_text response_data of
          Inr agent_response \<Rightarrow> Inr agent_response
        | Inl x \<Rightarrow>
            (if kind_of x = KeyError \<or> kind_of x = IndexError
             then Inr (JStr (''Response received but couldn't extract text. Full response: ''
                             @ repr e response_data))
             else Inl x)))"

text \<open>\<^verbatim>\<open>json.loads(response)\<close>: TypeError when the argument is not a string.\<close>

fun json_loads :: "env \<Rightarrow> json \<Rightarrow> exn + json" where
  "json_loads e (JStr s) =
     (case loads e s of
        None \<Rightarrow> Inl (Exn JSONDecodeError ''Expecting value'')
      | Some v \<Rightarrow> Inr v)"
| "json_loads e v = Inl (Exn TypeError ''the JSON object must be str, bytes or bytearray'')"

section \<open>Numbers and their formatting\<close>

text \<open>
  A value used in an arithmetic comparison must be a number (a Boolean counts as 0 or 1);
  any other value raises TypeError at its first comparison.
\<close>

fun py_num :: "json \<Rightarrow> exn + rat" where
  "py_num (JNum r) = Inr r"
| "py_num (JBool b) = Inr (if b then 1 else 0)"
| "py_num v = Inl (Exn TypeError ''comparison or arithmetic not supported for this operand'')"

text \<open>Rounding to the nearest integer, ties to the even one, as \<^verbatim>\<open>round\<close> and
  the format \<^verbatim>\<open>.1f\<close> do on an exactly representable tie.\<close>

definition round_half_even :: "rat \<Rightarrow> int" where
  "round_half_even x =
     (let f = \<lfloor>x\<rfloor>; d = x - of_int f
      in if d < 1 / 2 then f else if 1 / 2 < d then f + 1 else if even f then f else f + 1)"

text \<open>\<^verbatim>\<open>round(x, 2)\<close>.\<close>

definition round2 :: "rat \<Rightarrow> rat" where
  "round2 x = of_int (round_half_even (x * 100)) / 100"

definition digit_char :: "nat \<Rightarrow> char" where
  "digit_char d = (''0123456789'') ! d"

function string_of_nat :: "nat \<Rightarrow> string" where
  "string_of_nat n =
     (if n < 10 then [digit_char n] else string_of_nat (n div 10) @ [digit_char (n mod 10)])"
  by pat_completeness auto
termination
  by (relation "measure id") auto

text \<open>The format \<^verbatim>\<open>{x:.1f}\<close>: one digit after the point.\<close>

definition fmt1 :: "rat \<Rightarrow> string" where
  "fmt1 x =
     (let n = nat \<bar>round_half_even (x * 10)\<bar>
      in (if x < 0 then ''-'' else []) @ string_of_nat (n div 10) @ ''.'' @ string_of_nat (n mod 10))"

definition json_strs :: "string list \<Rightarrow> json" where
  "json_strs xs = JList (map JStr xs)"

section \<open>The credit risk worker: \<^verbatim>\<open>CreditRiskAgent._assess_credit_risk\<close>\<close>

text \<open>The risk points and the risk factor of the credit score.\<close>

definition credit_score_assessment :: "rat \<Rightarrow> string list \<times> nat" where
  "credit_score_assessment credit_score =
     (if credit_score = 0 then ([''No credit score provided''], 30)
      else if credit_score < 580 then ([''Poor credit score (below 580)''], 40)
      else if credit_score < 620 then ([''Fair credit score (580-619)''], 25)
      else if credit_score < 670 then ([''Good credit score (620-669)''], 10)
      else if credit_score < 740 then ([], 5)
      else ([], 0))"

definition debt_to_income_assessment :: "rat \<Rightarrow> string list \<times> nat" where
  "debt_to_income_assessment debt_to_income =
     (if 43 < debt_to_income
      then ([''High debt-to-income ratio ('' @ fmt1 debt_to_income @ ''%)''], 25)
      else if 36 < debt_to_income
      then ([''Elevated debt-to-income ratio ('' @ fmt1 debt_to_income @ ''%)''], 15)
      else ([], 0))"

definition income_assessment :: "rat \<Rightarrow> string list \<times> nat" where
  "income_assessment annual_income =
     (if annual_income < 30000 then ([''Low annual income (below $30,000)''], 20)
      else if annual_income < 50000 then ([''Moderate annual income ($30,000-$49,999)''], 10)
      else ([], 0))"

definition risk_level_of :: "nat \<Rightarrow> string" where
  "risk_level_of risk_score =
     (if 50 \<le> risk_score then ''high'' else if 25 \<le> risk_score then ''medium'' else ''low'')"

definition risk_recommendations :: "rat \<Rightarrow> rat \<Rightarrow> rat \<Rightarrow> string list" where
  "risk_recommendations credit_score debt_to_income annual_income =
     (let recommendations =
            (if credit_score < 620
             then [''Consider credit improvement strategies before application''] else [])
          @ (if 43 < debt_to_income
             then [''Reduce monthly debt obligations to improve DTI ratio''] else [])
          @ (if annual_income < 50000
             then [''Consider co-signer or additional income sources''] else [])
      in if recommendations = [] then [''Applicant meets basic credit criteria'']
         else recommendations)"

definition risk_confidence :: "rat \<Rightarrow> rat \<Rightarrow> rat" where
  "risk_confidence credit_score annual_income =
     min (7 / 10 + (if 0 < credit_score then 2 / 10 else 0) + (if 0 < annual_income then 1 / 10 else 0)) 1"

text \<open>
  \<open>assess_credit_risk\<close> reads the financial data with the defaults of the source (a
  missing monthly debt is zero), converts a value to a number where the source first
  compares or divides it, and returns the dictionary of the source.
\<close>

definition assess_credit_risk :: "(string \<times> json) list \<Rightarrow> exn + json" where
  "assess_credit_risk financial_data =
     (let annual_income = dict_get financial_data ''annual_income'' (JNum 0);
          monthly_debt = dict_get financial_data ''monthly_debt'' (JNum 0);
          credit_score = dict_get financial_data ''credit_score'' (JNum 0);
          loan_amount = dict_get financial_data ''loan_amount'' (JNum 0)
      in bindE (py_num annual_income) (\<lambda>income.
         let monthly_income = (if 0 < income then income / 12 else 0)
         in bindE (if 0 < monthly_income
                   then bindE (py_num monthly_debt) (\<lambda>debt. Inr (debt / monthly_income * 100))
                   else Inr 100) (\<lambda>debt_to_income.
            bindE (py_num credit_score) (\<lambda>score.
            let (factors1, points1) = credit_score_assessment score;
                (factors2, points2) = debt_to_income_assessment debt_to_income;
                (factors3, points3) = income_assessment income;
                risk_factors = factors1 @ factors2 @ factors3;
                risk_score = points1 + points2 + points3
            in Inr (JObj
                 [(''risk_level'', JStr (risk_level_of risk_score)),
                  (''risk_score'', JNum (of_nat (min risk_score 100))),
                  (''confidence'', JNum (risk_confidence score income)),
                  (''credit_score_estimate'', credit_score),
                  (''debt_to_income_ratio'', JNum (round2 debt_to_income)),
                  (''annual_income'', annual_income),
                  (''monthly_debt'', monthly_debt),
                  (''risk_factors'', json_strs risk_factors),
                  (''recommendations'', json_strs (risk_recommendations score debt_to_income income)),
                  (''metrics'', JObj
                     [(''debt_to_income_ratio'', JNum (round2 debt_to_income)),
                      (''credit_score'', credit_score),
                      (''annual_income'', annual_income),
                      (''monthly_debt'', monthly_debt),
                      (''loan_amount'', loan_amount)]),
                  (''agent'', JStr ''CreditRiskAgent'')])))))"

section \<open>The compliance worker: \<^verbatim>\<open>ComplianceAgent\<close>\<close>

text \<open>The values \<^verbatim>\<open>_analyze_structured_data\<close> extracts before its checks.\<close>

record compliance_metrics =
  m_credit_score :: json
  m_annual_income :: json
  m_monthly_debt :: json
  m_loan_amount :: json
  m_debt_to_income :: json

text \<open>
  The nested structure is the one the routing agent sends (the keys \<open>risk_assessment\<close>
  and \<open>document_data\<close> are both present): the ratio is read from the risk assessment.
  Otherwise the values are read from the top level and the ratio is computed.
\<close>

definition extract_metrics :: "json \<Rightarrow> exn + compliance_metrics" where
  "extract_metrics data =
     bindE (py_in ''risk_assessment'' data) (\<lambda>has_risk.
     bindE (if has_risk then py_in ''document_data'' data else Inr False) (\<lambda>nested.
     bindE (require_dict data) (\<lambda>d.
       if nested then
         bindE (require_dict (dict_get d ''risk_assessment'' (JObj []))) (\<lambda>risk_data.
         bindE (require_dict (dict_get d ''document_data'' (JObj []))) (\<lambda>doc_data.
           Inr \<lparr> m_credit_score =
                    dict_get risk_data ''credit_score'' (dict_get doc_data ''credit_score'' (JNum 0)),
                  m_annual_income =
                    dict_get risk_data ''annual_income'' (dict_get doc_data ''income'' (JNum 0)),
                  m_monthly_debt = dict_get risk_data ''monthly_debt'' (JNum 0),
                  m_loan_amount = dict_get doc_data ''loan_amount'' (JNum 0),
                  m_debt_to_income = dict_get risk_data ''debt_to_income_ratio'' (JNum 0) \<rparr>))
       else
         (let credit_score = dict_get d ''credit_score'' (JNum 0);
              annual_income = dict_get d ''annual_income'' (dict_get d ''income'' (JNum 0));
              monthly_debt = dict_get d ''monthly_debt'' (JNum 0);
              loan_amount = dict_get d ''loan_amount'' (JNum 0)
          in bindE (py_num annual_income) (\<lambda>income.
             let monthly_income = (if 0 < income then income / 12 else 0)
             in bindE (if 0 < monthly_income
                       then bindE (py_num monthly_debt) (\<lambda>debt. Inr (debt / monthly_income * 100))
                       else Inr 0) (\<lambda>debt_to_income.
                Inr \<lparr> m_credit_score = credit_score,
                       m_annual_income = annual_income,
                       m_monthly_debt = monthly_debt,
                       m_loan_amount = loan_amount,
                       m_debt_to_income = JNum debt_to_income \<rparr>))))))"

text \<open>The three checks: each one gives compliance issues and recommendations.\<close>

definition credit_score_check :: "rat \<Rightarrow> string list \<times> string list" where
  "credit_score_check credit_score =
     (if credit_score < 620
      then ([''Credit score below conventional lending minimum (620)''],
            [''Consider FHA loan options or credit improvement strategies''])
      else if credit_score < 740
      then ([], [''Credit score could be improved for better rates''])
      else ([], []))"

definition debt_to_income_check :: "rat \<Rightarrow> string list \<times> string list" where
  "debt_to_income_check debt_to_income =
     (if 43 < debt_to_income
      then ([''Debt-to-income ratio ('' @ fmt1 debt_to_income
               @ ''%) exceeds recommended maximum (43%)''],
            [''Consider debt reduction or lower loan amount''])
      else if 36 < debt_to_income
      then ([], [''DTI ratio is acceptable but on the higher side''])
      else ([], []))"

definition income_check :: "rat \<Rightarrow> string list \<times> string list" where
  "income_check annual_income =
     (if annual_income < 30000
      then ([''Annual income may be insufficient for mortgage qualification''],
            [''Verify income documentation and consider co-signer''])
      else ([], []))"

definition analyze_structured_data :: "json \<Rightarrow> exn + json" where
  "analyze_structured_data data =
     bindE (extract_metrics data) (\<lambda>m.
     bindE (py_num (m_credit_score m)) (\<lambda>credit_score.
     bindE (py_num (m_debt_to_income m)) (\<lambda>debt_to_income.
     bindE (py_num (m_annual_income m)) (\<lambda>annual_income.
       let (issues1, recs1) = credit_score_check credit_score;
           (issues2, recs2) = debt_to_income_check debt_to_income;
           (issues3, recs3) = income_check annual_income;
           compliance_issues = issues1 @ issues2 @ issues3;
           recommendations = recs1 @ recs2 @ recs3;
           approved = (compliance_issues = [] \<and> 620 \<le> credit_score \<and> debt_to_income \<le> 43)
       in Inr (JObj
            [(''approved'', JBool approved),
             (''confidence'', JNum (if approved then 85 / 100 else 65 / 100)),
             (''compliance_issues'', json_strs compliance_issues),
             (''recommendations'', json_strs recommendations),
             (''metrics'', JObj
                [(''credit_score'', m_credit_score m),
                 (''debt_to_income_ratio'', JNum (round2 debt_to_income)),
                 (''annual_income'', m_annual_income m),
                 (''monthly_debt'', m_monthly_debt m),
                 (''loan_amount'', m_loan_amount m)]),
             (''agent'', JStr ''ComplianceAgent'')])))))"

text \<open>
  \<^verbatim>\<open>ComplianceAgent.process\<close>: content that starts with a brace is parsed and analysed
  as structured data; other content, and content that does not parse, goes to the text
  analysis.
\<close>

definition compliance_process :: "env \<Rightarrow> string \<Rightarrow> exn + json" where
  "compliance_process e content =
     except_kind JSONDecodeError
       (if startswith (py_strip content) ''{''
        then bindE (json_loads e (JStr content)) analyze_structured_data
        else analyze_with_crewai e content)
       (analyze_with_crewai e content)"

section \<open>The routing state\<close>

text \<open>
  \<^verbatim>\<open>RoutingState\<close> is a typed dictionary with seven keys, all given a value when
  \<^verbatim>\<open>process_query\<close> creates the state. The slots hold whatever value a stage stores.
  \<open>state_items\<close> is the dictionary view of the state (its keys and values in the
  order of creation), which the aggregation iterates over and \<^verbatim>\<open>state.get\<close> reads.
\<close>

record RoutingState =
  messages :: "json list"
  query :: string
  route_decision :: string
  document_data :: json
  risk_assessment :: json
  compliance_result :: json
  final_result :: json

definition state_items :: "RoutingState \<Rightarrow> (string \<times> json) list" where
  "state_items state =
     [(''messages'', JList (messages state)),
      (''query'', JStr (query state)),
      (''route_decision'', JStr (route_decision state)),
      (''document_data'', document_data state),
      (''risk_assessment'', risk_assessment state),
      (''compliance_result'', compliance_result state),
      (''final_result'', final_result state)]"

text \<open>\<^verbatim>\<open>state.get(key, default)\<close>.\<close>

definition state_get :: "RoutingState \<Rightarrow> string \<Rightarrow> json \<Rightarrow> json" where
  "state_get state k dflt = dict_get (state_items state) k dflt"

definition assistant_message :: "string \<Rightarrow> json" where
  "assistant_message content = JObj [(''role'', JStr ''assistant''), (''content'', JStr content)]"

text \<open>\<^verbatim>\<open>state["messages"].append(...)\<close>.\<close>

definition append_message :: "string \<Rightarrow> RoutingState \<Rightarrow> RoutingState" where
  "append_message content state = state\<lparr>messages := messages state @ [assistant_message content]\<rparr>"

definition initial_state :: "string \<Rightarrow> RoutingState" where
  "initial_state q =
     \<lparr> messages = [], query = q, route_decision = [], document_data = JObj [],
       risk_assessment = JObj [], compliance_result = JObj [], final_result = JObj [] \<rparr>"

section \<open>The classifier: \<^verbatim>\<open>_make_routing_decision\<close>\<close>

definition valid_routes :: "string list" where
  "valid_routes = [''document_only'', ''risk_only'', ''compliance_only'', ''full_pipeline'']"

text \<open>The reply is stripped and lowered, then validated against the four labels.\<close>

definition validate_route :: "string \<Rightarrow> string" where
  "validate_route content =
     (let route_decision = py_lower (py_strip content)
      in if route_decision \<notin> set valid_routes then ''full_pipeline'' else route_decision)"

text \<open>The call of the text generator has no handler: its exception leaves the node.\<close>

text \<open>The decision is stored in the state and logged.\<close>

definition record_decision :: "string \<Rightarrow> RoutingState \<Rightarrow> RoutingState" where
  "record_decision decided state =
     append_message (''Routing decision: '' @ decided) (state\<lparr>route_decision := decided\<rparr>)"

definition make_routing_decision :: "env \<Rightarrow> RoutingState \<Rightarrow> exn + RoutingState" where
  "make_routing_decision e state =
     bindE (classify e (query state)) (\<lambda>content.
       Inr (record_decision (validate_route content) state))"

definition route_condition :: "RoutingState \<Rightarrow> string" where
  "route_condition state = route_decision state"

section \<open>The stage handlers\<close>

subsection \<open>Replies of the workers\<close>

text \<open>
  The document stage reads the first element of \<open>results\<close> when that key holds a
  non-empty value, and the message it prints then needs a dictionary; otherwise the
  parsed reply itself is the document data.
\<close>

definition parse_document_reply :: "json \<Rightarrow> exn + json" where
  "parse_document_reply response_data =
     bindE (py_in ''results'' response_data) (\<lambda>has_results.
     bindE (if has_results then bindE (py_getitem response_data ''results'') (\<lambda>r. Inr (py_truthy r))
            else Inr False) (\<lambda>first_result.
       if first_result then
         bindE (py_getitem response_data ''results'') (\<lambda>results.
         bindE (py_getitem0 results) (\<lambda>data.
         bindE (require_dict data) (\<lambda>_. Inr data)))
       else
         bindE (py_in ''applicant_name'' response_data) (\<lambda>direct.
           if direct then Inr response_data else Inr response_data)))"

text \<open>
  The risk and the compliance stage read the value under the worker's own key
  (\<open>risk_analysis\<close>, \<open>compliance_analysis\<close>), else the first element of \<open>results\<close>, else
  the reply itself; the message printed afterwards needs a dictionary.
\<close>

definition parse_named_reply :: "string \<Rightarrow> json \<Rightarrow> exn + json" where
  "parse_named_reply key response_data =
     bindE (py_in key response_data) (\<lambda>named.
     bindE (if named then py_getitem response_data key
            else
              bindE (py_in ''results'' response_data) (\<lambda>has_results.
              bindE (if has_results
                     then bindE (py_getitem response_data ''results'') (\<lambda>r. Inr (py_truthy r))
                     else Inr False) (\<lambda>first_result.
                if first_result
                then bindE (py_getitem response_data ''results'') py_getitem0
                else Inr response_data))) (\<lambda>result.
     bindE (require_dict result) (\<lambda>_. Inr result)))"

definition error_slot :: "string \<Rightarrow> exn \<Rightarrow> json" where
  "error_slot what x = JObj [(''error'', JStr (what @ str_exn x))]"

subsection \<open>Document processing: \<^verbatim>\<open>_process_document\<close>\<close>

definition sample_applicant :: json where
  "sample_applicant = JObj
     [(''applicant_name'', JStr ''Sample Applicant (No PDF specified)''),
      (''annual_income'', JNum 75000),
      (''monthly_debt'', JNum 2000),
      (''credit_score'', JNum 720),
      (''loan_amount'', JNum 300000),
      (''employment_history'', JStr ''Stable employment for 5 years'')]"

definition document_local :: "env \<Rightarrow> RoutingState \<Rightarrow> exn + json" where
  "document_local e state =
     bindE (raising (document_agent_create e)) (\<lambda>_.
       (case search_pdf e (query state) of
          Some pdf_filename \<Rightarrow> document_agent_process e pdf_filename
        | None \<Rightarrow> Inr sample_applicant))"

definition document_request :: "RoutingState \<Rightarrow> string" where
  "document_request state =
     ''Extract and analyze data from the mortgage application PDF. Query: '' @ query state"

definition document_raw :: "json \<Rightarrow> json" where
  "document_raw response = JObj
     [(''applicant_name'', JStr ''Document Agent Response''),
      (''annual_income'', JNum 75000),
      (''raw_response'', response),
      (''processing_note'', JStr ''Response parsed from text format'')]"

text \<open>The inner \<^verbatim>\<open>try\<close>: the call of the worker and the parsing of its reply.\<close>

definition document_call :: "env \<Rightarrow> AgentCard \<Rightarrow> RoutingState \<Rightarrow> exn + json" where
  "document_call e agent_card state =
     bindE (send_task e agent_card (document_request state) (uuid4 e)) (\<lambda>response.
       except_kind JSONDecodeError
         (bindE (json_loads e response) parse_document_reply)
         (Inr (document_raw response)))"

definition document_remote :: "env \<Rightarrow> AgentCard \<Rightarrow> RoutingState \<Rightarrow> json" where
  "document_remote e agent_card state =
     (case document_call e agent_card state of
        Inr data \<Rightarrow> data
      | Inl x \<Rightarrow> error_slot ''Document agent communication failed: '' x)"

definition process_document_body :: "env \<Rightarrow> RoutingState \<Rightarrow> exn + json" where
  "process_document_body e state =
     (case get_agent_by_skill e [''document'', ''pdf'', ''extraction''] of
        None \<Rightarrow> document_local e state
      | Some doc_agent_card \<Rightarrow> Inr (document_remote e doc_agent_card state))"

definition process_document :: "env \<Rightarrow> RoutingState \<Rightarrow> RoutingState" where
  "process_document e state =
     (case process_document_body e state of
        Inr data \<Rightarrow>
          append_message ''Document processing completed'' (state\<lparr>document_data := data\<rparr>)
      | Inl x \<Rightarrow>
          append_message (''Document processing error: '' @ str_exn x)
            (state\<lparr>document_data := error_slot ''Document processing failed: '' x\<rparr>))"

subsection \<open>Risk assessment: \<^verbatim>\<open>_assess_risk\<close>\<close>

text \<open>The input of the local credit risk agent.\<close>

definition risk_local_input :: "RoutingState \<Rightarrow> json" where
  "risk_local_input state = state_get state ''document_data'' (JStr (query state))"

definition risk_local :: "env \<Rightarrow> RoutingState \<Rightarrow> exn + json" where
  "risk_local e state =
     bindE (raising (risk_agent_create e)) (\<lambda>_.
       risk_agent_process e (risk_local_input state))"

text \<open>The request sent to the remote credit risk agent.\<close>

definition risk_request :: "env \<Rightarrow> RoutingState \<Rightarrow> string" where
  "risk_request e state =
     (let input_data = state_get state ''document_data'' (JObj [])
      in if is_dict input_data
         then ''Perform credit risk assessment on this applicant data: '' @ dumps e input_data
         else ''Perform credit risk assessment. Query: '' @ query state)"

definition risk_raw :: "json \<Rightarrow> json" where
  "risk_raw response = JObj
     [(''risk_level'', JStr ''medium''),
      (''risk_score'', JNum 65),
      (''confidence'', JNum (7 / 10)),
      (''raw_response'', response),
      (''processing_note'', JStr ''Response parsed from text format'')]"

definition risk_call :: "env \<Rightarrow> AgentCard \<Rightarrow> RoutingState \<Rightarrow> exn + json" where
  "risk_call e agent_card state =
     bindE (send_task e agent_card (risk_request e state) (uuid4 e)) (\<lambda>response.
       except_kind JSONDecodeError
         (bindE (json_loads e response) (parse_named_reply ''risk_analysis''))
         (Inr (risk_raw response)))"

definition risk_remote :: "env \<Rightarrow> AgentCard \<Rightarrow> RoutingState \<Rightarrow> json" where
  "risk_remote e agent_card state =
     (case risk_call e agent_card state of
        Inr risk_result \<Rightarrow> risk_result
      | Inl x \<Rightarrow> error_slot ''Credit risk agent communication failed: '' x)"

definition assess_risk_body :: "env \<Rightarrow> RoutingState \<Rightarrow> exn + json" where
  "assess_risk_body e state =
     (case get_agent_by_skill e [''credit'', ''risk'', ''financial''] of
        None \<Rightarrow> risk_local e state
      | Some risk_agent_card \<Rightarrow> Inr (risk_remote e risk_agent_card state))"

definition assess_risk :: "env \<Rightarrow> RoutingState \<Rightarrow> RoutingState" where
  "assess_risk e state =
     (case assess_risk_body e state of
        Inr risk_result \<Rightarrow>
          append_message ''Risk assessment completed'' (state\<lparr>risk_assessment := risk_result\<rparr>)
      | Inl x \<Rightarrow>
          append_message (''Risk assessment error: '' @ str_exn x)
            (state\<lparr>risk_assessment := error_slot ''Risk assessment failed: '' x\<rparr>))"

subsection \<open>Compliance check: \<^verbatim>\<open>_check_compliance\<close>\<close>

text \<open>The input of the local compliance agent.\<close>

definition compliance_local_input :: "RoutingState \<Rightarrow> json" where
  "compliance_local_input state =
     state_get state ''risk_assessment''
       (state_get state ''document_data'' (JStr (query state)))"

text \<open>\<^verbatim>\<open>str(v)\<close>: a string is itself, any other value is formatted.\<close>

definition py_str :: "env \<Rightarrow> json \<Rightarrow> string" where
  "py_str e v = (case v of JStr s \<Rightarrow> s | _ \<Rightarrow> repr e v)"

definition compliance_local_content :: "env \<Rightarrow> RoutingState \<Rightarrow> string" where
  "compliance_local_content e state =
     (let input_data = compliance_local_input state
      in if is_dict input_data then dumps e input_data else py_str e input_data)"

definition compliance_local :: "env \<Rightarrow> RoutingState \<Rightarrow> exn + json" where
  "compliance_local e state =
     bindE (raising (compliance_agent_create e)) (\<lambda>_.
       compliance_process e (compliance_local_content e state))"

text \<open>The request sent to the remote compliance agent carries both slots and the query.\<close>

definition compliance_request :: "env \<Rightarrow> RoutingState \<Rightarrow> string" where
  "compliance_request e state =
     (let input_data = JObj
            [(''document_data'', state_get state ''document_data'' (JObj [])),
             (''risk_assessment'', state_get state ''risk_assessment'' (JObj [])),
             (''query'', JStr (query state))]
      in ''Perform regulatory compliance check on this mortgage application data: ''
         @ dumps e input_data)"

definition compliance_raw :: "json \<Rightarrow> json" where
  "compliance_raw response = JObj
     [(''approved'', JBool True),
      (''confidence'', JNum (8 / 10)),
      (''compliance_issues'', JList []),
      (''recommendations'', JList [JStr ''Manual review recommended'']),
      (''raw_response'', response),
      (''processing_note'', JStr ''Response parsed from text format'')]"

definition compliance_call :: "env \<Rightarrow> AgentCard \<Rightarrow> RoutingState \<Rightarrow> exn + json" where
  "compliance_call e agent_card state =
     bindE (send_task e agent_card (compliance_request e state) (uuid4 e)) (\<lambda>response.
       except_kind JSONDecodeError
         (bindE (json_loads e response) (parse_named_reply ''compliance_analysis''))
         (Inr (compliance_raw response)))"

definition compliance_remote :: "env \<Rightarrow> AgentCard \<Rightarrow> RoutingState \<Rightarrow> json" where
  "compliance_remote e agent_card state =
     (case compliance_call e agent_card state of
        Inr compliance \<Rightarrow> compliance
      | Inl x \<Rightarrow> error_slot ''Compliance agent communication failed: '' x)"

definition check_compliance_body :: "env \<Rightarrow> RoutingState \<Rightarrow> exn + json" where
  "check_compliance_body e state =
     (case get_agent_by_skill e [''compliance'', ''regulatory'', ''legal''] of
        None \<Rightarrow> compliance_local e state
      | Some compliance_agent_card \<Rightarrow> Inr (compliance_remote e compliance_agent_card state))"

definition check_compliance :: "env \<Rightarrow> RoutingState \<Rightarrow> RoutingState" where
  "check_compliance e state =
     (case check_compliance_body e state of
        Inr compliance \<Rightarrow>
          append_message ''Compliance check completed'' (state\<lparr>compliance_result := compliance\<rparr>)
      | Inl x \<Rightarrow>
          append_message (''Compliance check error: '' @ str_exn x)
            (state\<lparr>compliance_result := error_slot ''Compliance check failed: '' x\<rparr>))"

section \<open>Aggregation: \<^verbatim>\<open>_aggregate_results\<close>\<close>

definition step_suffixes :: "string list" where
  "step_suffixes = [''_data'', ''_assessment'', ''_result'']"

text \<open>\<open>total_steps\<close>: the keys of the state that end with one of the three suffixes.\<close>

definition total_steps :: "RoutingState \<Rightarrow> nat" where
  "total_steps state =
     length (filter (\<lambda>k. endswith_any k step_suffixes) (map fst (state_items state)))"

text \<open>
  \<open>successful_steps\<close>: the values under those keys for which \<^verbatim>\<open>'error' not in v\<close>
  holds. The test raises on a value that is not iterable, and the comprehension with it.
\<close>

fun count_successful :: "(string \<times> json) list \<Rightarrow> exn + nat" where
  "count_successful [] = Inr 0"
| "count_successful ((k, v) # items) =
     (if endswith_any k step_suffixes
      then bindE (py_in ''error'' v) (\<lambda>has_error.
           bindE (count_successful items) (\<lambda>n. Inr (if has_error then n else Suc n)))
      else count_successful items)"

definition successful_steps :: "RoutingState \<Rightarrow> exn + nat" where
  "successful_steps state = count_successful (state_items state)"

text \<open>The dictionary literal that collects the results.\<close>

definition collect_results :: "RoutingState \<Rightarrow> exn + (string \<times> json) list" where
  "collect_results state =
     bindE (successful_steps state) (\<lambda>successful.
       Inr [(''routing_decision'', state_get state ''route_decision'' (JStr ''unknown'')),
            (''document_data'', state_get state ''document_data'' (JObj [])),
            (''risk_assessment'', state_get state ''risk_assessment'' (JObj [])),
            (''compliance_result'', state_get state ''compliance_result'' (JObj [])),
            (''processing_summary'', JObj
               [(''total_steps'', JNum (of_nat (total_steps state))),
                (''successful_steps'', JNum (of_nat successful)),
                (''agent'', JStr ''RoutingAgent'')])])"

text \<open>\<^verbatim>\<open>_generate_pdf_report\<close> catches every exception of its body and returns None.\<close>

definition generate_pdf_report :: "env \<Rightarrow> json \<Rightarrow> string option" where
  "generate_pdf_report e result =
     (case render_pdf e result of Inr output_path \<Rightarrow> Some output_path | Inl x \<Rightarrow> None)"

text \<open>
  The body of the \<^verbatim>\<open>try\<close>: the summary is requested with no handler of its own, so
  its exception is the one of the whole body; the report path is added when there is one.
\<close>

definition aggregate_body :: "env \<Rightarrow> RoutingState \<Rightarrow> exn + json" where
  "aggregate_body e state =
     bindE (collect_results state) (\<lambda>collected.
     bindE (summarize e (JObj collected)) (\<lambda>summary.
       let with_summary = collected @ [(''summary'', JStr summary)]
       in (case generate_pdf_report e (JObj with_summary) of
             Some pdf_path \<Rightarrow>
               (if pdf_path \<noteq> []
                then Inr (JObj (with_summary @ [(''output_pdf_path'', JStr pdf_path)]))
                else Inr (JObj with_summary))
           | None \<Rightarrow> Inr (JObj with_summary))))"

definition aggregate_results :: "env \<Rightarrow> RoutingState \<Rightarrow> RoutingState" where
  "aggregate_results e state =
     (case aggregate_body e state of
        Inr result \<Rightarrow>
          append_message ''Final aggregation completed'' (state\<lparr>final_result := result\<rparr>)
      | Inl x \<Rightarrow>
          append_message (''Aggregation error: '' @ str_exn x)
            (state\<lparr>final_result := error_slot ''Aggregation failed: '' x\<rparr>))"

section \<open>The routing graph and \<^verbatim>\<open>process_query\<close>\<close>

datatype stage = DocumentProcessing | RiskAssessment | ComplianceCheck | FinalAggregation

text \<open>The conditional edges out of the route decision.\<close>

definition conditional_edges :: "(string \<times> stage) list" where
  "conditional_edges =
     [(''document_only'', DocumentProcessing),
      (''risk_only'', RiskAssessment),
      (''compliance_only'', ComplianceCheck),
      (''full_pipeline'', DocumentProcessing)]"

text \<open>The fixed edges; \<open>None\<close> is the end of the graph.\<close>

fun next_stage :: "stage \<Rightarrow> stage option" where
  "next_stage DocumentProcessing = Some RiskAssessment"
| "next_stage RiskAssessment = Some ComplianceCheck"
| "next_stage ComplianceCheck = Some FinalAggregation"
| "next_stage FinalAggregation = None"

fun run_stage :: "env \<Rightarrow> stage \<Rightarrow> RoutingState \<Rightarrow> RoutingState" where
  "run_stage e DocumentProcessing state = process_document e state"
| "run_stage e RiskAssessment state = assess_risk e state"
| "run_stage e ComplianceCheck state = check_compliance e state"
| "run_stage e FinalAggregation state = aggregate_results e state"

fun stage_rank :: "stage \<Rightarrow> nat" where
  "stage_rank DocumentProcessing = 3"
| "stage_rank RiskAssessment = 2"
| "stage_rank ComplianceCheck = 1"
| "stage_rank FinalAggregation = 0"

text \<open>
  The graph runs the handler of a stage, then follows the fixed edge; it returns the
  final state and the stages it ran, in order.
\<close>

function run_from :: "env \<Rightarrow> stage \<Rightarrow> RoutingState \<Rightarrow> stage list \<Rightarrow> RoutingState \<times> stage list" where
  "run_from e s state visited =
     (case next_stage s of
        None \<Rightarrow> (run_stage e s state, visited @ [s])
      | Some s' \<Rightarrow> run_from e s' (run_stage e s state) (visited @ [s]))"
  by pat_completeness auto
termination
proof (relation "measure (\<lambda>(e, s, state, visited). stage_rank s)")
  show "wf (measure (\<lambda>(e, s, state, visited). stage_rank s))"
    by simp
next
  fix e :: env and s s' :: stage and state :: RoutingState and visited :: "stage list"
  assume "next_stage s = Some s'"
  then show "((e, s', run_stage e s state, visited @ [s]), (e, s, state, visited))
               \<in> measure (\<lambda>(e, s, state, visited). stage_rank s)"
    by (cases s) auto
qed

definition run_graph :: "env \<Rightarrow> RoutingState \<Rightarrow> exn + (RoutingState \<times> stage list)" where
  "run_graph e state =
     bindE (make_routing_decision e state) (\<lambda>decided.
       (case map_of conditional_edges (route_condition decided) of
          None \<Rightarrow> Inl (Exn KeyError (route_condition decided))
        | Some entry \<Rightarrow> Inr (run_from e entry decided [])))"

text \<open>
  \<^verbatim>\<open>process_query\<close> creates the agent when the graph is not built yet (outside its
  \<^verbatim>\<open>try\<close>), runs the graph on a fresh state and returns the final result; an exception
  of the run becomes an error dictionary.
\<close>

definition process_query :: "env \<Rightarrow> string \<Rightarrow> exn + json" where
  "process_query e q =
     bindE (raising (create_agent e)) (\<lambda>_.
       (case run_graph e (initial_state q) of
          Inr (final_state, visited) \<Rightarrow>
            Inr (state_get final_state ''final_result''
                   (JObj [(''error'', JStr ''No final result generated'')]))
        | Inl x \<Rightarrow>
            Inr (JObj [(''error'', JStr (''Routing workflow failed: '' @ str_exn x)),
                       (''agent'', JStr ''RoutingAgent'')])))"

section \<open>Notions used in the statements\<close>

text \<open>A slot counts as error-free when the test \<^verbatim>\<open>'error' not in v\<close> holds of it.\<close>

definition error_free :: "json \<Rightarrow> bool" where
  "error_free v = (py_in ''error'' v = Inr False)"

text \<open>
  Every stage other than the aggregation writes its own slot exactly once, so the number
  of slots populated during a run is the number of such stages among those that ran.
\<close>

definition populated_slots :: "stage list \<Rightarrow> nat" where
  "populated_slots visited = length (filter (\<lambda>s. s \<noteq> FinalAggregation) visited)"

text \<open>A field of the result of a computation, and a count of the processing summary.\<close>

definition result_field :: "exn + json \<Rightarrow> string \<Rightarrow> json option" where
  "result_field r k = (case r of Inr v \<Rightarrow> json_get v k | Inl x \<Rightarrow> None)"

definition reported_steps :: "exn + json \<Rightarrow> string \<Rightarrow> json option" where
  "reported_steps r k =
     (case r of
        Inr result \<Rightarrow>
          (case json_get result ''processing_summary'' of
             Some s \<Rightarrow> json_get s k
           | None \<Rightarrow> None)
      | Inl x \<Rightarrow> None)"

text \<open>The stages a query runs through, in order.\<close>

definition stages_run :: "env \<Rightarrow> string \<Rightarrow> stage list" where
  "stages_run e q =
     (case run_graph e (initial_state q) of
        Inr (final, visited) \<Rightarrow> visited
      | Inl x \<Rightarrow> [])"

section \<open>Example environments\<close>

text \<open>
  \<open>offline_env label\<close>: discovery found no agent, so every stage runs its local fallback;
  the classifier answers \<open>label\<close>. The local credit risk agent of the example returns its
  input under the key \<open>input_data\<close>, which makes the input of the stage visible in its slot.
  \<open>online_env label reply\<close>: the three workers are registered and every call of the
  transport has the outcome \<open>reply\<close>.
\<close>

definition document_card :: AgentCard where
  "document_card =
     \<lparr> card_name = ''document_agent'',
       card_description = ''Extracts data from mortgage documents'',
       card_url = ''http://localhost:10001'',
       card_skills = [''Document Extraction''] \<rparr>"

definition risk_card :: AgentCard where
  "risk_card =
     \<lparr> card_name = ''credit_risk_agent'',
       card_description = ''Performs credit risk assessment'',
       card_url = ''http://localhost:10002'',
       card_skills = [''Credit Risk Analysis''] \<rparr>"

definition compliance_card :: AgentCard where
  "compliance_card =
     \<lparr> card_name = ''compliance_agent'',
       card_description = ''Checks regulatory compliance'',
       card_url = ''http://localhost:10003'',
       card_skills = [''Compliance Check''] \<rparr>"

definition offline_env :: "string \<Rightarrow> env" where
  "offline_env label =
     \<lparr> available_agents = [],
       create_agent = None,
       classify = (\<lambda>q. Inr label),
       summarize = (\<lambda>r. Inr ''Summary of the workflow''),
       render_pdf = (\<lambda>r. Inr ''compliance_report.pdf''),
       send_message = (\<lambda>c m. Inl (Exn TransportError ''timed out'')),
       loads = (\<lambda>s. if s = ''{}'' then Some (JObj []) else None),
       dumps = (\<lambda>v. if v = JObj [] then ''{}'' else ''{...}''),
       repr = (\<lambda>v. ''{...}''),
       uuid4 = ''0000'',
       document_agent_create = None,
       search_pdf = (\<lambda>q. None),
       document_agent_process = (\<lambda>f. Inr sample_applicant),
       risk_agent_create = None,
       risk_agent_process =
         (\<lambda>d. Inr (JObj [(''risk_level'', JStr ''medium''), (''input_data'', d)])),
       compliance_agent_create = None,
       analyze_with_crewai =
         (\<lambda>c. Inr (JObj [(''approved'', JBool False), (''agent'', JStr ''ComplianceAgent'')])) \<rparr>"

definition online_env :: "string \<Rightarrow> exn + json \<Rightarrow> env" where
  "online_env label reply =
     (offline_env label)
       \<lparr> available_agents := [(''document_agent'', document_card),
                               (''credit_risk_agent'', risk_card),
                               (''compliance_agent'', compliance_card)],
         send_message := (\<lambda>c m. reply) \<rparr>"

text \<open>A well-formed reply of a worker whose text payload is \<open>t\<close>.\<close>

definition text_reply :: "string \<Rightarrow> json" where
  "text_reply t =
     JObj [(''result'', JObj [(''status'', JObj [(''message'', JObj
       [(''parts'', JList [JObj [(''kind'', JStr ''text''), (''text'', JStr t)]])])])])]"

text \<open>The summarization service is down; the report cannot be written.\<close>

definition no_summary_env :: env where
  "no_summary_env =
     (offline_env ''full_pipeline'')
       \<lparr> summarize := (\<lambda>r. Inl (Exn TransportError ''service unavailable'')) \<rparr>"

definition no_report_env :: env where
  "no_report_env =
     (offline_env ''full_pipeline'')
       \<lparr> render_pdf := (\<lambda>r. Inl (Exn ValueError ''cannot write the report'')) \<rparr>"

text \<open>A JSON-RPC error response: it has no \<open>result\<close>.\<close>

definition rpc_error_reply :: json where
  "rpc_error_reply =
     JObj [(''error'', JObj [(''code'', JNum (- 32603)), (''message'', JStr ''Internal error'')]),
           (''id'', JStr ''1''), (''jsonrpc'', JStr ''2.0'')]"

text \<open>
  The applicant of the example scenario: 80000 annual income, credit score 720, and no
  monthly debt given (the functions read a missing debt as zero).
\<close>

definition example_financial_data :: "(string \<times> json) list" where
  "example_financial_data = [(''annual_income'', JNum 80000), (''credit_score'', JNum 720)]"

section \<open>Basic facts\<close>

subsection \<open>Reading the state\<close>

lemma state_get_document_data [simp]: "state_get st ''document_data'' d = document_data st"
  by (simp add: state_get_def state_items_def dict_get_def)

lemma state_get_risk_assessment [simp]: "state_get st ''risk_assessment'' d = risk_assessment st"
  by (simp add: state_get_def state_items_def dict_get_def)

lemma state_get_compliance_result [simp]:
  "state_get st ''compliance_result'' d = compliance_result st"
  by (simp add: state_get_def state_items_def dict_get_def)

lemma state_get_final_result [simp]: "state_get st ''final_result'' d = final_result st"
  by (simp add: state_get_def state_items_def dict_get_def)

lemma state_get_route_decision [simp]:
  "state_get st ''route_decision'' d = JStr (route_decision st)"
  by (simp add: state_get_def state_items_def dict_get_def)

lemma record_decision_fields [simp]:
  "route_decision (record_decision r st) = r"
  "query (record_decision r st) = query st"
  "document_data (record_decision r st) = document_data st"
  "risk_assessment (record_decision r st) = risk_assessment st"
  "compliance_result (record_decision r st) = compliance_result st"
  "final_result (record_decision r st) = final_result st"
  by (simp_all add: record_decision_def append_message_def)

subsection \<open>The route decision\<close>

lemma validate_route_valid: "validate_route content \<in> set valid_routes"
  by (simp add: validate_route_def Let_def valid_routes_def)

lemma validate_route_eq:
  "validate_route content =
     (if py_lower (py_strip content) \<in> set valid_routes then py_lower (py_strip content)
      else ''full_pipeline'')"
  by (simp add: validate_route_def Let_def)

lemma conditional_edges_valid:
  "r \<in> set valid_routes \<Longrightarrow> \<exists>entry. map_of conditional_edges r = Some entry"
  by (auto simp: valid_routes_def conditional_edges_def)

lemma make_routing_decision_Inr:
  "classify e (query st) = Inr content \<Longrightarrow>
   make_routing_decision e st = Inr (record_decision (validate_route content) st)"
  by (simp add: make_routing_decision_def bindE_def)

lemma run_graph_Inr:
  assumes "classify e (query st) = Inr content"
      and "map_of conditional_edges (validate_route content) = Some entry"
  shows "run_graph e st = Inr (run_from e entry (record_decision (validate_route content) st) [])"
  using assms
  by (simp add: run_graph_def make_routing_decision_Inr bindE_def route_condition_def)

subsection \<open>The run of the graph from each stage\<close>

declare run_from.simps [simp del]

lemma run_from_FinalAggregation:
  "run_from e FinalAggregation st v = (aggregate_results e st, v @ [FinalAggregation])"
  by (subst run_from.simps) simp

lemma run_from_ComplianceCheck:
  "run_from e ComplianceCheck st v =
     (aggregate_results e (check_compliance e st), v @ [ComplianceCheck, FinalAggregation])"
  by (subst run_from.simps) (simp add: run_from_FinalAggregation)

lemma run_from_RiskAssessment:
  "run_from e RiskAssessment st v =
     (aggregate_results e (check_compliance e (assess_risk e st)),
      v @ [RiskAssessment, ComplianceCheck, FinalAggregation])"
  by (subst run_from.simps) (simp add: run_from_ComplianceCheck)

lemma run_from_DocumentProcessing:
  "run_from e DocumentProcessing st v =
     (aggregate_results e (check_compliance e (assess_risk e (process_document e st))),
      v @ [DocumentProcessing, RiskAssessment, ComplianceCheck, FinalAggregation])"
  by (subst run_from.simps) (simp add: run_from_RiskAssessment)

subsection \<open>Frames of the handlers\<close>

lemma process_document_frame [simp]:
  "final_result (process_document e st) = final_result st"
  "risk_assessment (process_document e st) = risk_assessment st"
  "compliance_result (process_document e st) = compliance_result st"
  "query (process_document e st) = query st"
  "route_decision (process_document e st) = route_decision st"
  by (simp_all add: process_document_def append_message_def split: sum.splits)

lemma assess_risk_frame [simp]:
  "final_result (assess_risk e st) = final_result st"
  "document_data (assess_risk e st) = document_data st"
  "compliance_result (assess_risk e st) = compliance_result st"
  "query (assess_risk e st) = query st"
  "route_decision (assess_risk e st) = route_decision st"
  by (simp_all add: assess_risk_def append_message_def split: sum.splits)

lemma check_compliance_frame [simp]:
  "final_result (check_compliance e st) = final_result st"
  "document_data (check_compliance e st) = document_data st"
  "risk_assessment (check_compliance e st) = risk_assessment st"
  "query (check_compliance e st) = query st"
  "route_decision (check_compliance e st) = route_decision st"
  by (simp_all add: check_compliance_def append_message_def split: sum.splits)

lemma aggregate_results_frame [simp]:
  "document_data (aggregate_results e st) = document_data st"
  "risk_assessment (aggregate_results e st) = risk_assessment st"
  "compliance_result (aggregate_results e st) = compliance_result st"
  "query (aggregate_results e st) = query st"
  "route_decision (aggregate_results e st) = route_decision st"
  by (simp_all add: aggregate_results_def append_message_def split: sum.splits)

subsection \<open>The processing summary\<close>

lemma total_steps_4: "total_steps st = 4"
  by (simp add: total_steps_def state_items_def step_suffixes_def endswith_any_def endswith_def)

lemma count_successful_state:
  "count_successful (state_items st) =
     bindE (py_in ''error'' (document_data st)) (\<lambda>b1.
     bindE (py_in ''error'' (risk_assessment st)) (\<lambda>b2.
     bindE (py_in ''error'' (compliance_result st)) (\<lambda>b3.
     bindE (py_in ''error'' (final_result st)) (\<lambda>b4.
       Inr ((if b1 then 0 else 1) + (if b2 then 0 else 1) + (if b3 then 0 else 1)
            + (if b4 then 0 else 1))))))"
  by (simp add: state_items_def step_suffixes_def endswith_any_def endswith_def bindE_def
           split: sum.splits)

lemma json_get_error_slot:
  "json_get (error_slot what x) k = (if k = ''error'' then Some (JStr (what @ str_exn x)) else None)"
  by (simp add: error_slot_def)

lemma aggregate_body_summary:
  assumes "aggregate_body e st = Inr result"
  shows "\<exists>n. successful_steps st = Inr n \<and>
           json_get result ''processing_summary'' =
             Some (JObj [(''total_steps'', JNum 4), (''successful_steps'', JNum (of_nat n)),
                         (''agent'', JStr ''RoutingAgent'')])"
  using assms
  by (auto simp: aggregate_body_def collect_results_def bindE_def total_steps_4 Let_def
           split: sum.splits option.splits if_splits)

lemma aggregate_results_summary:
  assumes "json_get (final_result (aggregate_results e st)) ''processing_summary'' = Some summary"
  shows "\<exists>n. successful_steps st = Inr n \<and>
           summary = JObj [(''total_steps'', JNum 4), (''successful_steps'', JNum (of_nat n)),
                           (''agent'', JStr ''RoutingAgent'')]"
proof (cases "aggregate_body e st")
  case (Inl x)
  then have "final_result (aggregate_results e st) = error_slot ''Aggregation failed: '' x"
    by (simp add: aggregate_results_def append_message_def)
  with assms show ?thesis by (simp add: json_get_error_slot)
next
  case (Inr result)
  then have "final_result (aggregate_results e st) = result"
    by (simp add: aggregate_results_def append_message_def)
  with assms aggregate_body_summary [OF Inr] show ?thesis by auto
qed

lemma successful_steps_fresh:
  assumes "final_result st = JObj []" and "successful_steps st = Inr n"
  shows "n = length (filter error_free [document_data st, risk_assessment st, compliance_result st]) + 1"
  using assms
  by (auto simp: successful_steps_def count_successful_state bindE_def error_free_def
           split: sum.splits)

lemma error_free_empty [simp]: "error_free (JObj [])"
  by (simp add: error_free_def)

text \<open>The summary of a run that starts at any stage from a state with fresh slots.\<close>

lemma run_from_fresh:
  assumes run: "run_from e entry st [] = (final, visited)"
      and fresh: "final_result st = JObj []" "document_data st = JObj []"
                 "risk_assessment st = JObj []" "compliance_result st = JObj []"
      and summary: "json_get (final_result final) ''processing_summary'' = Some summary"
  shows "\<exists>n. summary = JObj [(''total_steps'', JNum 4), (''successful_steps'', JNum (of_nat n)),
                              (''agent'', JStr ''RoutingAgent'')]
            \<and> n = length (filter error_free
                     [document_data final, risk_assessment final, compliance_result final]) + 1
            \<and> 4 \<le> n + populated_slots visited"
proof -
  obtain pre where final: "final = aggregate_results e pre"
      and pre_final: "final_result pre = JObj []"
      and untouched:
        "entry = RiskAssessment \<or> entry = ComplianceCheck \<or> entry = FinalAggregation
           \<Longrightarrow> document_data pre = JObj []"
        "entry = ComplianceCheck \<or> entry = FinalAggregation \<Longrightarrow> risk_assessment pre = JObj []"
        "entry = FinalAggregation \<Longrightarrow> compliance_result pre = JObj []"
      and pop: "populated_slots visited = stage_rank entry"
  proof (cases entry)
    case DocumentProcessing
    with run fresh show ?thesis
      by (intro that [of "check_compliance e (assess_risk e (process_document e st))"])
         (auto simp: run_from_DocumentProcessing populated_slots_def)
  next
    case RiskAssessment
    with run fresh show ?thesis
      by (intro that [of "check_compliance e (assess_risk e st)"])
         (auto simp: run_from_RiskAssessment populated_slots_def)
  next
    case ComplianceCheck
    with run fresh show ?thesis
      by (intro that [of "check_compliance e st"])
         (auto simp: run_from_ComplianceCheck populated_slots_def)
  next
    case FinalAggregation
    with run fresh show ?thesis
      by (intro that [of st]) (auto simp: run_from_FinalAggregation populated_slots_def)
  qed
  from summary final obtain n where n: "successful_steps pre = Inr n"
      and s: "summary = JObj [(''total_steps'', JNum 4), (''successful_steps'', JNum (of_nat n)),
                              (''agent'', JStr ''RoutingAgent'')]"
    using aggregate_results_summary by blast
  have count: "n = length (filter error_free
                  [document_data pre, risk_assessment pre, compliance_result pre]) + 1"
    by (rule successful_steps_fresh [OF pre_final n])
  have "4 \<le> n + populated_slots visited"
    using count untouched pop by (cases entry) auto
  with s count final show ?thesis by simp
qed

lemma run_graph_fresh:
  assumes run: "run_graph e (initial_state q) = Inr (final, visited)"
      and summary: "json_get (final_result final) ''processing_summary'' = Some summary"
  shows "\<exists>n. summary = JObj [(''total_steps'', JNum 4), (''successful_steps'', JNum (of_nat n)),
                              (''agent'', JStr ''RoutingAgent'')]
            \<and> n = length (filter error_free
                     [document_data final, risk_assessment final, compliance_result final]) + 1
            \<and> 4 \<le> n + populated_slots visited"
proof -
  from run obtain decided entry where
      d: "make_routing_decision e (initial_state q) = Inr decided"
      and r: "run_from e entry decided [] = (final, visited)"
    by (auto simp: run_graph_def bindE_def split: sum.splits option.splits)
  from d obtain content where "decided = record_decision (validate_route content) (initial_state q)"
    by (auto simp: make_routing_decision_def bindE_def split: sum.splits)
  then have "final_result decided = JObj []" "document_data decided = JObj []"
            "risk_assessment decided = JObj []" "compliance_result decided = JObj []"
    by (simp_all add: initial_state_def)
  from run_from_fresh [OF r this summary] show ?thesis .
qed

subsection \<open>What a handler reads\<close>

lemma process_document_body_cong:
  "query s1 = query s2 \<Longrightarrow> process_document_body e s1 = process_document_body e s2"
  by (simp add: process_document_body_def document_local_def document_remote_def
        document_call_def document_request_def split: option.splits)

lemma assess_risk_body_cong:
  "query s1 = query s2 \<Longrightarrow> document_data s1 = document_data s2 \<Longrightarrow>
   assess_risk_body e s1 = assess_risk_body e s2"
  by (simp add: assess_risk_body_def risk_local_def risk_local_input_def risk_remote_def
        risk_call_def risk_request_def Let_def split: option.splits cong: if_cong)

lemma check_compliance_body_cong:
  "query s1 = query s2 \<Longrightarrow> document_data s1 = document_data s2 \<Longrightarrow>
   risk_assessment s1 = risk_assessment s2 \<Longrightarrow>
   check_compliance_body e s1 = check_compliance_body e s2"
  by (simp add: check_compliance_body_def compliance_local_def compliance_local_content_def
        compliance_local_input_def compliance_remote_def compliance_call_def
        compliance_request_def Let_def split: option.splits cong: if_cong)

lemma document_data_process_document:
  "document_data (process_document e st) =
     (case process_document_body e st of
        Inr data \<Rightarrow> data
      | Inl x \<Rightarrow> error_slot ''Document processing failed: '' x)"
  by (simp add: process_document_def append_message_def split: sum.splits)

lemma risk_assessment_assess_risk:
  "risk_assessment (assess_risk e st) =
     (case assess_risk_body e st of
        Inr data \<Rightarrow> data
      | Inl x \<Rightarrow> error_slot ''Risk assessment failed: '' x)"
  by (simp add: assess_risk_def append_message_def split: sum.splits)

lemma compliance_result_check_compliance:
  "compliance_result (check_compliance e st) =
     (case check_compliance_body e st of
        Inr data \<Rightarrow> data
      | Inl x \<Rightarrow> error_slot ''Compliance check failed: '' x)"
  by (simp add: check_compliance_def append_message_def split: sum.splits)

text \<open>The slots a full run leaves do not depend on the label stored by the decision.\<close>

lemma full_run_slots:
  fixes e q r
  defines "d \<equiv> process_document e (initial_state q)"
  defines "final \<equiv> fst (run_from e DocumentProcessing (record_decision r (initial_state q)) [])"
  shows "document_data final = document_data d"
    and "risk_assessment final = risk_assessment (assess_risk e d)"
    and "compliance_result final = compliance_result (check_compliance e (assess_risk e d))"
proof -
  let ?s = "record_decision r (initial_state q)"
  let ?d = "process_document e ?s"
  have 1: "document_data ?d = document_data d"
    unfolding d_def document_data_process_document
    by (simp add: process_document_body_cong [of ?s "initial_state q"])
  have 2: "risk_assessment (assess_risk e ?d) = risk_assessment (assess_risk e d)"
    unfolding risk_assessment_assess_risk
    using 1 by (simp add: assess_risk_body_cong [of ?d d] d_def)
  have 3: "compliance_result (check_compliance e (assess_risk e ?d))
             = compliance_result (check_compliance e (assess_risk e d))"
    unfolding compliance_result_check_compliance
    using 1 2
    by (simp add: check_compliance_body_cong [of "assess_risk e ?d" "assess_risk e d"] d_def)
  show "document_data final = document_data d"
    using 1 by (simp add: final_def run_from_DocumentProcessing)
  show "risk_assessment final = risk_assessment (assess_risk e d)"
    using 2 by (simp add: final_def run_from_DocumentProcessing)
  show "compliance_result final = compliance_result (check_compliance e (assess_risk e d))"
    using 3 by (simp add: final_def run_from_DocumentProcessing)
qed

subsection \<open>The classifier is read by the route decision only\<close>

lemma json_loads_classify [simp]: "json_loads (e\<lparr>classify := f\<rparr>) v = json_loads e v"
  by (cases v) simp_all

lemma get_agent_by_skill_classify [simp]:
  "get_agent_by_skill (e\<lparr>classify := f\<rparr>) ks = get_agent_by_skill e ks"
  by (simp add: get_agent_by_skill_def cong: option.case_cong)

lemma send_task_classify [simp]:
  "send_task (e\<lparr>classify := f\<rparr>) c m sid = send_task e c m sid"
  by (simp add: send_task_def cong: sum.case_cong if_cong)

lemma process_document_classify:
  "process_document (e\<lparr>classify := f\<rparr>) st = process_document e st"
  by (simp add: process_document_def process_document_body_def
        document_local_def document_remote_def document_call_def
        cong: option.case_cong sum.case_cong)

lemma assess_risk_classify:
  "assess_risk (e\<lparr>classify := f\<rparr>) st = assess_risk e st"
  by (simp add: assess_risk_def assess_risk_body_def
        risk_local_def risk_remote_def risk_call_def risk_request_def
        cong: option.case_cong sum.case_cong if_cong)

lemma check_compliance_classify:
  "check_compliance (e\<lparr>classify := f\<rparr>) st = check_compliance e st"
  by (simp add: check_compliance_def check_compliance_body_def
        compliance_local_def compliance_local_content_def py_str_def compliance_process_def
        compliance_remote_def compliance_call_def compliance_request_def
        cong: option.case_cong sum.case_cong if_cong json.case_cong)

lemma aggregate_results_classify:
  "aggregate_results (e\<lparr>classify := f\<rparr>) st = aggregate_results e st"
  by (simp add: aggregate_results_def aggregate_body_def generate_pdf_report_def
        cong: option.case_cong sum.case_cong if_cong)

text \<open>A run from a stage is the same under any classifier.\<close>

lemma run_from_classify:
  "run_from (e\<lparr>classify := f\<rparr>) s st v = run_from e s st v"
  by (cases s)
     (simp_all add: run_from_DocumentProcessing run_from_RiskAssessment run_from_ComplianceCheck
        run_from_FinalAggregation process_document_classify assess_risk_classify
        check_compliance_classify aggregate_results_classify)

subsection \<open>Outcomes of the worker calls\<close>

lemma send_task_Inl: "send_message e c m = Inl x \<Longrightarrow> send_task e c m sid = Inl x"
  by (simp add: send_task_def bindE_def)

lemma document_remote_failure:
  "send_task e c (document_request state) (uuid4 e) = Inl x \<Longrightarrow>
   document_remote e c state = error_slot ''Document agent communication failed: '' x"
  by (simp add: document_remote_def document_call_def bindE_def)

lemma risk_remote_failure:
  "send_task e c (risk_request e state) (uuid4 e) = Inl x \<Longrightarrow>
   risk_remote e c state = error_slot ''Credit risk agent communication failed: '' x"
  by (simp add: risk_remote_def risk_call_def bindE_def)

lemma compliance_remote_failure:
  "send_task e c (compliance_request e state) (uuid4 e) = Inl x \<Longrightarrow>
   compliance_remote e c state = error_slot ''Compliance agent communication failed: '' x"
  by (simp add: compliance_remote_def compliance_call_def bindE_def)

lemma last_run_from: "last (snd (run_from e s state visited)) = FinalAggregation"
  by (cases s)
     (simp_all add: run_from_DocumentProcessing run_from_RiskAssessment
        run_from_ComplianceCheck run_from_FinalAggregation)

lemma document_found:
  "get_agent_by_skill e [''document'', ''pdf'', ''extraction''] = Some c \<Longrightarrow>
   document_data (process_document e state) = document_remote e c state"
  by (simp add: document_data_process_document process_document_body_def)

lemma risk_found:
  "get_agent_by_skill e [''credit'', ''risk'', ''financial''] = Some c \<Longrightarrow>
   risk_assessment (assess_risk e state) = risk_remote e c state"
  by (simp add: risk_assessment_assess_risk assess_risk_body_def)

lemma compliance_found:
  "get_agent_by_skill e [''compliance'', ''regulatory'', ''legal''] = Some c \<Longrightarrow>
   compliance_result (check_compliance e state) = compliance_remote e c state"
  by (simp add: compliance_result_check_compliance check_compliance_body_def)

text \<open>A failure of a local fallback agent is recorded by the outer handler of the stage.\<close>

lemma local_failure_recorded:
  "get_agent_by_skill e [''document'', ''pdf'', ''extraction''] = None \<Longrightarrow>
   document_local e state = Inl x \<Longrightarrow>
   document_data (process_document e state) = error_slot ''Document processing failed: '' x"
  "get_agent_by_skill e [''credit'', ''risk'', ''financial''] = None \<Longrightarrow>
   risk_local e state = Inl x \<Longrightarrow>
   risk_assessment (assess_risk e state) = error_slot ''Risk assessment failed: '' x"
  "get_agent_by_skill e [''compliance'', ''regulatory'', ''legal''] = None \<Longrightarrow>
   compliance_local e state = Inl x \<Longrightarrow>
   compliance_result (check_compliance e state) = error_slot ''Compliance check failed: '' x"
  by (simp_all add: document_data_process_document process_document_body_def
        risk_assessment_assess_risk assess_risk_body_def
        compliance_result_check_compliance check_compliance_body_def)

lemma document_remote_raw:
  "send_task e c (document_request state) (uuid4 e) = Inr (JStr t) \<Longrightarrow> loads e t = None \<Longrightarrow>
   document_remote e c state = document_raw (JStr t)"
  by (simp add: document_remote_def document_call_def bindE_def except_kind_def)

lemma risk_remote_raw:
  "send_task e c (risk_request e state) (uuid4 e) = Inr (JStr t) \<Longrightarrow> loads e t = None \<Longrightarrow>
   risk_remote e c state = risk_raw (JStr t)"
  by (simp add: risk_remote_def risk_call_def bindE_def except_kind_def)

lemma compliance_remote_raw:
  "send_task e c (compliance_request e state) (uuid4 e) = Inr (JStr t) \<Longrightarrow> loads e t = None \<Longrightarrow>
   compliance_remote e c state = compliance_raw (JStr t)"
  by (simp add: compliance_remote_def compliance_call_def bindE_def except_kind_def)

subsection \<open>Outcomes of the aggregation\<close>

lemma collect_results_keys:
  assumes "collect_results state = Inr collected"
  shows "map_of collected ''document_data'' = Some (document_data state)"
    and "map_of collected ''risk_assessment'' = Some (risk_assessment state)"
    and "map_of collected ''compliance_result'' = Some (compliance_result state)"
    and "map_of collected ''processing_summary'' \<noteq> None"
    and "map_of collected ''summary'' = None"
    and "map_of collected ''output_pdf_path'' = None"
  using assms
  by (auto simp: collect_results_def bindE_def split: sum.splits)

lemma aggregate_without_report:
  assumes "collect_results state = Inr collected"
      and "summarize e (JObj collected) = Inr summary"
      and "render_pdf e (JObj (collected @ [(''summary'', JStr summary)])) = Inl x"
  shows "final_result (aggregate_results e state) = JObj (collected @ [(''summary'', JStr summary)])"
  using assms
  by (simp add: aggregate_results_def aggregate_body_def bindE_def generate_pdf_report_def
        append_message_def Let_def)

lemma aggregate_without_summary:
  assumes "collect_results state = Inr collected"
      and "summarize e (JObj collected) = Inl x"
  shows "final_result (aggregate_results e state) = error_slot ''Aggregation failed: '' x"
  using assms
  by (simp add: aggregate_results_def aggregate_body_def bindE_def append_message_def)

lemma process_query_returns:
  "create_agent e = None \<Longrightarrow> \<exists>result. process_query e q = Inr result"
  by (simp add: process_query_def raising_def bindE_def split: sum.splits prod.splits)

subsection \<open>The example environments\<close>

lemma online_agents:
  "get_agent_by_skill (online_env l reply) [''document'', ''pdf'', ''extraction''] = Some document_card"
  "get_agent_by_skill (online_env l reply) [''credit'', ''risk'', ''financial''] = Some risk_card"
  "get_agent_by_skill (online_env l reply) [''compliance'', ''regulatory'', ''legal'']
     = Some compliance_card"
  by (simp_all add: get_agent_by_skill_def online_env_def offline_env_def agent_mapping_def
        py_lower_def lower_char_def)

lemma online_send_task_Inl:
  "send_task (online_env l (Inl x)) c m sid = Inl x"
  by (simp add: send_task_def bindE_def online_env_def offline_env_def)

section \<open>The processing summary\<close>

text \<open>
  Claim C1, as the code has it. In the final result of a run, the processing summary
  reports \<open>total_steps = 4\<close> and an integer \<open>successful_steps\<close>, which is the number
  of the three stage slots that lack an \<open>error\<close> key, whether a stage handler wrote them
  or not, plus one for the slot \<open>final_result\<close> itself (still empty when it is counted).
\<close>

theorem successful_steps_counts_error_free_slots:
  assumes "run_graph e (initial_state q) = Inr (final, visited)"
      and "json_get (final_result final) ''processing_summary'' = Some summary"
  shows "\<exists>successful.
           json_get summary ''total_steps'' = Some (JNum 4)
         \<and> json_get summary ''successful_steps'' = Some (JNum (of_nat successful))
         \<and> successful = length (filter error_free
               [document_data final, risk_assessment final, compliance_result final]) + 1"
proof -
  from run_graph_fresh [OF assms] obtain n where
      s: "summary = JObj [(''total_steps'', JNum 4), (''successful_steps'', JNum (of_nat n)),
                          (''agent'', JStr ''RoutingAgent'')]"
      and n: "n = length (filter error_free
                   [document_data final, risk_assessment final, compliance_result final]) + 1"
    by blast
  have "json_get summary ''total_steps'' = Some (JNum 4)"
    using s by simp
  moreover have "json_get summary ''successful_steps'' = Some (JNum (of_nat n))"
    using s by simp
  ultimately show ?thesis using n by blast
qed

theorem successful_steps_counts_error_free_slots_witness:
  "\<exists>final.
     run_graph (offline_env ''compliance_only'') (initial_state ''Check compliance'')
       = Inr (final, [ComplianceCheck, FinalAggregation])
   \<and> json_get (final_result final) ''processing_summary''
       = Some (JObj [(''total_steps'', JNum 4), (''successful_steps'', JNum 4),
                     (''agent'', JStr ''RoutingAgent'')])
   \<and> document_data final = JObj [] \<and> risk_assessment final = JObj []
   \<and> (4::nat) = length (filter error_free
               [document_data final, risk_assessment final, compliance_result final]) + 1"
proof -
  let ?e = "offline_env ''compliance_only''"
  let ?q = "''Check compliance''"
  let ?final = "fst (run_from ?e ComplianceCheck (record_decision ''compliance_only'' (initial_state ?q)) [])"
  let ?summary = "JObj [(''total_steps'', JNum 4), (''successful_steps'', JNum 4),
                        (''agent'', JStr ''RoutingAgent'')]"
  have run: "run_graph ?e (initial_state ?q) = Inr (?final, [ComplianceCheck, FinalAggregation])"
    by code_simp
  have summary: "json_get (final_result ?final) ''processing_summary'' = Some ?summary"
    by code_simp
  have slots: "document_data ?final = JObj []" "risk_assessment ?final = JObj []"
    by code_simp+
  from successful_steps_counts_error_free_slots [OF run summary]
  have "(4::nat) = length (filter error_free
               [document_data ?final, risk_assessment ?final, compliance_result ?final]) + 1"
    by auto
  with run summary slots show ?thesis by blast
qed

text \<open>
  Claim C1 as stated fails: on the route \<open>compliance_only\<close> with no agent registered,
  one stage slot is populated during the run (the compliance stage's), and the summary
  reports four successful steps.
\<close>

theorem successful_steps_not_populated_count:
  "reported_steps (process_query (offline_env ''compliance_only'') ''Check compliance'')
     ''successful_steps'' = Some (JNum 4)
   \<and> stages_run (offline_env ''compliance_only'') ''Check compliance''
       = [ComplianceCheck, FinalAggregation]
   \<and> populated_slots (stages_run (offline_env ''compliance_only'') ''Check compliance'') = 1"
  by code_simp

text \<open>
  Claim C10. Whatever the route and the outcome of the stages, a processing summary
  reports \<open>total_steps = 4\<close>: the four keys \<open>document_data\<close>, \<open>risk_assessment\<close>,
  \<open>compliance_result\<close> and \<open>final_result\<close> are in the state from its creation and are
  counted by their suffix. An empty slot has no \<open>error\<close> key, so every slot no stage
  wrote is counted in \<open>successful_steps\<close>: that count is at least four minus the number
  of slots populated during the run.
\<close>

theorem total_steps_is_four:
  assumes "run_graph e (initial_state q) = Inr (final, visited)"
      and "json_get (final_result final) ''processing_summary'' = Some summary"
  shows "json_get summary ''total_steps'' = Some (JNum 4)
       \<and> total_steps final = 4
       \<and> error_free (JObj [])
       \<and> (\<exists>n. json_get summary ''successful_steps'' = Some (JNum (of_nat n))
              \<and> 4 \<le> n + populated_slots visited)"
proof -
  from run_graph_fresh [OF assms] obtain n where
      s: "summary = JObj [(''total_steps'', JNum 4), (''successful_steps'', JNum (of_nat n)),
                          (''agent'', JStr ''RoutingAgent'')]"
      and n: "4 \<le> n + populated_slots visited"
    by blast
  have "json_get summary ''successful_steps'' = Some (JNum (of_nat n))"
    using s by simp
  with s n show ?thesis
    by (auto simp: total_steps_4)
qed

theorem total_steps_is_four_witness:
  "\<exists>final.
     run_graph (online_env ''risk_only'' (Inl (Exn TransportError ''timed out'')))
         (initial_state ''Assess credit risk'')
       = Inr (final, [RiskAssessment, ComplianceCheck, FinalAggregation])
   \<and> json_get (final_result final) ''processing_summary''
       = Some (JObj [(''total_steps'', JNum 4), (''successful_steps'', JNum 2),
                     (''agent'', JStr ''RoutingAgent'')])
   \<and> document_data final = JObj []
   \<and> total_steps final = 4
   \<and> populated_slots [RiskAssessment, ComplianceCheck, FinalAggregation] = 2"
proof -
  let ?e = "online_env ''risk_only'' (Inl (Exn TransportError ''timed out''))"
  let ?q = "''Assess credit risk''"
  let ?final = "fst (run_from ?e RiskAssessment (record_decision ''risk_only'' (initial_state ?q)) [])"
  let ?summary = "JObj [(''total_steps'', JNum 4), (''successful_steps'', JNum 2),
                        (''agent'', JStr ''RoutingAgent'')]"
  have run: "run_graph ?e (initial_state ?q)
               = Inr (?final, [RiskAssessment, ComplianceCheck, FinalAggregation])"
    by code_simp
  have summary: "json_get (final_result ?final) ''processing_summary'' = Some ?summary"
    by code_simp
  have slots: "document_data ?final = JObj []"
    by code_simp
  have pop: "populated_slots [RiskAssessment, ComplianceCheck, FinalAggregation] = 2"
    by (simp add: populated_slots_def)
  from total_steps_is_four [OF run summary] have "total_steps ?final = 4"
    by simp
  with run summary slots pop show ?thesis by blast
qed

section \<open>The worker client and the stage handlers\<close>

text \<open>
  Claim C2, as the code has it. \<open>send_task\<close> returns the text of the reply, and a
  descriptive text when the nested path of the reply is missing (KeyError, IndexError).
  A failure of the transport (a timeout, a refused connection) is raised by \<open>send_task\<close>
  to its caller; the stage handler that called it catches the exception and stores an
  \<open>error\<close> dictionary in its slot.
\<close>

theorem send_task_outcomes:
  "(send_message e c m = Inl x \<longrightarrow> send_task e c m sid = Inl x)
   \<and> (send_message e c (document_request state) = Inl x \<longrightarrow>
        document_remote e c state = error_slot ''Document agent communication failed: '' x)
   \<and> (send_message e c (risk_request e state) = Inl x \<longrightarrow>
        risk_remote e c state = error_slot ''Credit risk agent communication failed: '' x)
   \<and> (send_message e c (compliance_request e state) = Inl x \<longrightarrow>
        compliance_remote e c state = error_slot ''Compliance agent communication failed: '' x)
   \<and> (send_message e c m = Inr response_data \<longrightarrow> extract_text response_data = Inl y \<longrightarrow>
        kind_of y = KeyError \<or> kind_of y = IndexError \<longrightarrow>
        send_task e c m sid =
          Inr (JStr (''Response received but couldn't extract text. Full response: ''
                     @ repr e response_data)))
   \<and> (send_message e c m = Inr response_data \<longrightarrow> extract_text response_data = Inr t \<longrightarrow>
        send_task e c m sid = Inr t)"
  by (auto simp: send_task_Inl document_remote_failure risk_remote_failure
        compliance_remote_failure send_task_def bindE_def)

theorem send_task_outcomes_witness:
  "send_message (online_env ''full_pipeline'' (Inl (Exn TransportError ''timed out'')))
       document_card (document_request (initial_state ''Read the file''))
     = Inl (Exn TransportError ''timed out'')
   \<and> send_task (online_env ''full_pipeline'' (Inl (Exn TransportError ''timed out'')))
       document_card (document_request (initial_state ''Read the file'')) ''0000''
     = Inl (Exn TransportError ''timed out'')
   \<and> document_remote (online_env ''full_pipeline'' (Inl (Exn TransportError ''timed out'')))
       document_card (initial_state ''Read the file'')
     = error_slot ''Document agent communication failed: '' (Exn TransportError ''timed out'')
   \<and> risk_remote (online_env ''full_pipeline'' (Inl (Exn TransportError ''timed out'')))
       risk_card (initial_state ''Read the file'')
     = error_slot ''Credit risk agent communication failed: '' (Exn TransportError ''timed out'')
   \<and> compliance_remote (online_env ''full_pipeline'' (Inl (Exn TransportError ''timed out'')))
       compliance_card (initial_state ''Read the file'')
     = error_slot ''Compliance agent communication failed: '' (Exn TransportError ''timed out'')
   \<and> extract_text rpc_error_reply = Inl (Exn KeyError ''result'')
   \<and> send_task (online_env ''full_pipeline'' (Inr rpc_error_reply)) document_card ''Read'' ''0000''
     = Inr (JStr (''Response received but couldn't extract text. Full response: ''
                  @ repr (online_env ''full_pipeline'' (Inr rpc_error_reply)) rpc_error_reply))
   \<and> extract_text (text_reply ''{}'') = Inr (JStr ''{}'')
   \<and> send_task (online_env ''full_pipeline'' (Inr (text_reply ''{}''))) document_card ''Read'' ''0000''
     = Inr (JStr ''{}'')"
proof -
  let ?x = "Exn TransportError ''timed out''"
  let ?e1 = "online_env ''full_pipeline'' (Inl ?x)"
  let ?e2 = "online_env ''full_pipeline'' (Inr rpc_error_reply)"
  let ?e3 = "online_env ''full_pipeline'' (Inr (text_reply ''{}''))"
  let ?s = "initial_state ''Read the file''"
  let ?m = "document_request ?s"
  have h1: "send_message ?e1 c m = Inl ?x" for c m
    by (simp add: online_env_def offline_env_def)
  from send_task_outcomes [of ?e1 document_card ?m ?x "''0000''" ?s] h1
  have r1: "send_task ?e1 document_card ?m ''0000'' = Inl ?x"
    and r2: "document_remote ?e1 document_card ?s
               = error_slot ''Document agent communication failed: '' ?x"
    by blast+
  from send_task_outcomes [of ?e1 risk_card _ ?x _ ?s] h1
  have r2a: "risk_remote ?e1 risk_card ?s
               = error_slot ''Credit risk agent communication failed: '' ?x"
    by blast
  from send_task_outcomes [of ?e1 compliance_card _ ?x _ ?s] h1
  have r2b: "compliance_remote ?e1 compliance_card ?s
               = error_slot ''Compliance agent communication failed: '' ?x"
    by blast
  have h2: "send_message ?e2 document_card ''Read'' = Inr rpc_error_reply"
    by (simp add: online_env_def offline_env_def)
  have k2: "extract_text rpc_error_reply = Inl (Exn KeyError ''result'')"
    by (simp add: extract_text_def rpc_error_reply_def bindE_def)
  have kk: "kind_of (Exn KeyError ''result'') = KeyError \<or> kind_of (Exn KeyError ''result'') = IndexError"
    by simp
  from send_task_outcomes [of ?e2 document_card "''Read''" _ "''0000''" _ rpc_error_reply
         "Exn KeyError ''result''"] h2 k2 kk
  have r3: "send_task ?e2 document_card ''Read'' ''0000''
     = Inr (JStr (''Response received but couldn't extract text. Full response: ''
                  @ repr ?e2 rpc_error_reply))"
    by blast
  have h3: "send_message ?e3 document_card ''Read'' = Inr (text_reply ''{}'')"
    by (simp add: online_env_def offline_env_def)
  have k3: "extract_text (text_reply ''{}'') = Inr (JStr ''{}'')"
    by (simp add: extract_text_def text_reply_def bindE_def)
  from send_task_outcomes [of ?e3 document_card "''Read''" _ "''0000''" _ "text_reply ''{}''" _
         "JStr ''{}''"] h3 k3
  have r4: "send_task ?e3 document_card ''Read'' ''0000'' = Inr (JStr ''{}'')"
    by blast
  from h1 [of document_card ?m] r1 r2 r2a r2b k2 r3 k3 r4 show ?thesis by blast
qed

text \<open>
  Claim C2 as stated fails: when the transport times out, \<open>send_task\<close> raises the
  exception of the transport instead of returning a value.
\<close>

theorem send_task_raises_on_timeout:
  "send_task (online_env ''full_pipeline'' (Inl (Exn TransportError ''timed out'')))
     document_card ''Extract the data'' ''0000'' = Inl (Exn TransportError ''timed out'')"
  by (simp add: send_task_def bindE_def online_env_def offline_env_def)

text \<open>
  Claim C6. When the call of a stage's worker fails with an exception \<open>x\<close>, the stage
  stores the dictionary \<open>{error: ...}\<close> in its own slot. The run from any stage ends
  with the aggregation, whatever the slots hold: from each entry stage the graph runs
  every later handler on the state the earlier one left.
\<close>

theorem stage_failure_never_halts:
  "(get_agent_by_skill e [''document'', ''pdf'', ''extraction''] = Some c \<longrightarrow>
    send_task e c (document_request state) (uuid4 e) = Inl x \<longrightarrow>
      document_data (process_document e state)
        = JObj [(''error'', JStr (''Document agent communication failed: '' @ str_exn x))])
   \<and> (get_agent_by_skill e [''credit'', ''risk'', ''financial''] = Some c \<longrightarrow>
      send_task e c (risk_request e state) (uuid4 e) = Inl x \<longrightarrow>
        risk_assessment (assess_risk e state)
          = JObj [(''error'', JStr (''Credit risk agent communication failed: '' @ str_exn x))])
   \<and> (get_agent_by_skill e [''compliance'', ''regulatory'', ''legal''] = Some c \<longrightarrow>
      send_task e c (compliance_request e state) (uuid4 e) = Inl x \<longrightarrow>
        compliance_result (check_compliance e state)
          = JObj [(''error'', JStr (''Compliance agent communication failed: '' @ str_exn x))])
   \<and> last (snd (run_from e s state visited)) = FinalAggregation
   \<and> run_from e DocumentProcessing state []
       = (aggregate_results e (check_compliance e (assess_risk e (process_document e state))),
          [DocumentProcessing, RiskAssessment, ComplianceCheck, FinalAggregation])
   \<and> run_from e RiskAssessment state []
       = (aggregate_results e (check_compliance e (assess_risk e state)),
          [RiskAssessment, ComplianceCheck, FinalAggregation])
   \<and> run_from e ComplianceCheck state []
       = (aggregate_results e (check_compliance e state), [ComplianceCheck, FinalAggregation])"
  by (auto simp: document_found risk_found compliance_found document_remote_failure
        risk_remote_failure compliance_remote_failure error_slot_def last_run_from
        run_from_DocumentProcessing run_from_RiskAssessment run_from_ComplianceCheck)

theorem stage_failure_never_halts_witness:
  "get_agent_by_skill (online_env ''full_pipeline'' (Inl (Exn TransportError ''timed out'')))
       [''document'', ''pdf'', ''extraction''] = Some document_card
   \<and> get_agent_by_skill (online_env ''full_pipeline'' (Inl (Exn TransportError ''timed out'')))
       [''credit'', ''risk'', ''financial''] = Some risk_card
   \<and> get_agent_by_skill (online_env ''full_pipeline'' (Inl (Exn TransportError ''timed out'')))
       [''compliance'', ''regulatory'', ''legal''] = Some compliance_card
   \<and> document_data (process_document
         (online_env ''full_pipeline'' (Inl (Exn TransportError ''timed out'')))
         (initial_state ''Process the application''))
       = JObj [(''error'', JStr (''Document agent communication failed: ''
                                 @ str_exn (Exn TransportError ''timed out'')))]
   \<and> risk_assessment (assess_risk
         (online_env ''full_pipeline'' (Inl (Exn TransportError ''timed out'')))
         (initial_state ''Process the application''))
       = JObj [(''error'', JStr (''Credit risk agent communication failed: ''
                                 @ str_exn (Exn TransportError ''timed out'')))]
   \<and> compliance_result (check_compliance
         (online_env ''full_pipeline'' (Inl (Exn TransportError ''timed out'')))
         (initial_state ''Process the application''))
       = JObj [(''error'', JStr (''Compliance agent communication failed: ''
                                 @ str_exn (Exn TransportError ''timed out'')))]
   \<and> stages_run (online_env ''full_pipeline'' (Inl (Exn TransportError ''timed out'')))
        ''Process the application''
       = [DocumentProcessing, RiskAssessment, ComplianceCheck, FinalAggregation]"
proof -
  let ?x = "Exn TransportError ''timed out''"
  let ?e = "online_env ''full_pipeline'' (Inl ?x)"
  let ?s = "initial_state ''Process the application''"
  note a = online_agents [of "''full_pipeline''" "Inl ?x"]
  have f1: "send_task ?e document_card (document_request ?s) (uuid4 ?e) = Inl ?x"
    and f2: "send_task ?e risk_card (risk_request ?e ?s) (uuid4 ?e) = Inl ?x"
    and f3: "send_task ?e compliance_card (compliance_request ?e ?s) (uuid4 ?e) = Inl ?x"
    by (rule online_send_task_Inl)+
  from stage_failure_never_halts [of ?e document_card ?s ?x] a(1) f1
  have r1: "document_data (process_document ?e ?s)
       = JObj [(''error'', JStr (''Document agent communication failed: '' @ str_exn ?x))]"
    by blast
  from stage_failure_never_halts [of ?e risk_card ?s ?x] a(2) f2
  have r2: "risk_assessment (assess_risk ?e ?s)
       = JObj [(''error'', JStr (''Credit risk agent communication failed: '' @ str_exn ?x))]"
    by blast
  from stage_failure_never_halts [of ?e compliance_card ?s ?x] a(3) f3
  have r3: "compliance_result (check_compliance ?e ?s)
       = JObj [(''error'', JStr (''Compliance agent communication failed: '' @ str_exn ?x))]"
    by blast
  have r4: "stages_run ?e ''Process the application''
       = [DocumentProcessing, RiskAssessment, ComplianceCheck, FinalAggregation]"
    by code_simp
  from a r1 r2 r3 r4 show ?thesis by blast
qed

text \<open>
  Claim C8. In each of the three stages, when the text of the worker's reply does not
  parse as JSON, the slot of the stage is a dictionary with the keys \<open>raw_response\<close>
  (the text of the reply) and \<open>processing_note\<close>; the handler returns a state and the
  graph runs on to the aggregation.
\<close>

theorem non_json_reply_is_wrapped:
  "(get_agent_by_skill e [''document'', ''pdf'', ''extraction''] = Some c \<longrightarrow>
    send_task e c (document_request state) (uuid4 e) = Inr (JStr t) \<longrightarrow> loads e t = None \<longrightarrow>
      document_data (process_document e state) = document_raw (JStr t))
   \<and> (get_agent_by_skill e [''credit'', ''risk'', ''financial''] = Some c \<longrightarrow>
      send_task e c (risk_request e state) (uuid4 e) = Inr (JStr t) \<longrightarrow> loads e t = None \<longrightarrow>
        risk_assessment (assess_risk e state) = risk_raw (JStr t))
   \<and> (get_agent_by_skill e [''compliance'', ''regulatory'', ''legal''] = Some c \<longrightarrow>
      send_task e c (compliance_request e state) (uuid4 e) = Inr (JStr t) \<longrightarrow> loads e t = None \<longrightarrow>
        compliance_result (check_compliance e state) = compliance_raw (JStr t))
   \<and> json_get (document_raw r) ''raw_response'' = Some r
   \<and> json_get (document_raw r) ''processing_note'' = Some (JStr ''Response parsed from text format'')
   \<and> json_get (risk_raw r) ''raw_response'' = Some r
   \<and> json_get (risk_raw r) ''processing_note'' = Some (JStr ''Response parsed from text format'')
   \<and> json_get (compliance_raw r) ''raw_response'' = Some r
   \<and> json_get (compliance_raw r) ''processing_note''
       = Some (JStr ''Response parsed from text format'')
   \<and> snd (run_from e DocumentProcessing state [])
       = [DocumentProcessing, RiskAssessment, ComplianceCheck, FinalAggregation]
   \<and> snd (run_from e RiskAssessment state []) = [RiskAssessment, ComplianceCheck, FinalAggregation]
   \<and> snd (run_from e ComplianceCheck state []) = [ComplianceCheck, FinalAggregation]"
  by (auto simp: document_found risk_found compliance_found document_remote_raw risk_remote_raw
        compliance_remote_raw document_raw_def risk_raw_def compliance_raw_def
        run_from_DocumentProcessing run_from_RiskAssessment run_from_ComplianceCheck)

theorem non_json_reply_is_wrapped_witness:
  "send_task (online_env ''full_pipeline'' (Inr (text_reply ''I could not read the file'')))
       document_card (document_request (initial_state ''Process the application'')) ''0000''
     = Inr (JStr ''I could not read the file'')
   \<and> loads (online_env ''full_pipeline'' (Inr (text_reply ''I could not read the file'')))
       ''I could not read the file'' = None
   \<and> document_data (process_document
         (online_env ''full_pipeline'' (Inr (text_reply ''I could not read the file'')))
         (initial_state ''Process the application''))
       = document_raw (JStr ''I could not read the file'')
   \<and> risk_assessment (assess_risk
         (online_env ''full_pipeline'' (Inr (text_reply ''I could not read the file'')))
         (initial_state ''Process the application''))
       = risk_raw (JStr ''I could not read the file'')
   \<and> compliance_result (check_compliance
         (online_env ''full_pipeline'' (Inr (text_reply ''I could not read the file'')))
         (initial_state ''Process the application''))
       = compliance_raw (JStr ''I could not read the file'')
   \<and> json_get (document_raw (JStr ''I could not read the file'')) ''raw_response''
       = Some (JStr ''I could not read the file'')"
proof -
  let ?t = "''I could not read the file''"
  let ?e = "online_env ''full_pipeline'' (Inr (text_reply ?t))"
  let ?s = "initial_state ''Process the application''"
  note a = online_agents [of "''full_pipeline''" "Inr (text_reply ?t)"]
  have send: "send_task ?e c m sid = Inr (JStr ?t)" for c m sid
    by (simp add: send_task_def bindE_def online_env_def offline_env_def text_reply_def
          extract_text_def)
  have u: "uuid4 ?e = ''0000''"
    by (simp add: online_env_def offline_env_def)
  have l: "loads ?e ?t = None"
    by (simp add: online_env_def offline_env_def)
  from non_json_reply_is_wrapped [of ?e document_card ?s ?t] a(1) send l
  have r1: "document_data (process_document ?e ?s) = document_raw (JStr ?t)"
    by blast
  from non_json_reply_is_wrapped [of ?e risk_card ?s ?t] a(2) send l
  have r2: "risk_assessment (assess_risk ?e ?s) = risk_raw (JStr ?t)"
    by blast
  from non_json_reply_is_wrapped [of ?e compliance_card ?s ?t] a(3) send l
  have r3: "compliance_result (check_compliance ?e ?s) = compliance_raw (JStr ?t)"
    by blast
  from non_json_reply_is_wrapped [of _ _ _ _ "JStr ?t"]
  have r4: "json_get (document_raw (JStr ?t)) ''raw_response'' = Some (JStr ?t)"
    by blast
  from send [of document_card "document_request ?s" "''0000''"] l r1 r2 r3 r4
  show ?thesis by blast
qed

text \<open>
  Claim C4, evaluated on the code. The input of the risk stage is the slot
  \<open>document_data\<close> and the input of the local compliance agent is the slot
  \<open>risk_assessment\<close>, whatever they hold: the defaults of \<^verbatim>\<open>state.get\<close> are never
  used, since every key of the state has a value from its creation. When no earlier stage
  ran, the input is therefore the empty dictionary and not the text of the query: on the
  route \<open>risk_only\<close> the credit risk agent receives \<open>{}\<close>.
\<close>

theorem stage_input_ignores_query:
  "risk_local_input state = document_data state
   \<and> compliance_local_input state = risk_assessment state
   \<and> risk_local_input (record_decision r (initial_state q)) = JObj []
   \<and> risk_request e (record_decision r (initial_state q))
       = ''Perform credit risk assessment on this applicant data: '' @ dumps e (JObj [])
   \<and> compliance_local_content e (record_decision r (initial_state q)) = dumps e (JObj [])
   \<and> result_field (process_query (offline_env ''risk_only'')
         ''Assess credit risk for applicant with 80000 income, 720 credit score'') ''risk_assessment''
       = Some (JObj [(''risk_level'', JStr ''medium''), (''input_data'', JObj [])])"
proof -
  have "result_field (process_query (offline_env ''risk_only'')
         ''Assess credit risk for applicant with 80000 income, 720 credit score'') ''risk_assessment''
       = Some (JObj [(''risk_level'', JStr ''medium''), (''input_data'', JObj [])])"
    by code_simp
  then show ?thesis
    by (simp add: risk_local_input_def compliance_local_input_def risk_request_def
          compliance_local_content_def initial_state_def)
qed

section \<open>The routes\<close>

text \<open>
  Claim C7. Whatever text the classifier returns, the route decision stored in the state
  is the stripped and lowered text when that is one of the four labels and
  \<open>full_pipeline\<close> otherwise; it is always one of the four labels, so the conditional
  edge out of the decision exists and the graph runs from its entry stage.
\<close>

theorem routing_decision_fails_open:
  assumes "classify e (query state) = Inr content"
  shows "\<exists>decided entry.
           make_routing_decision e state = Inr decided
         \<and> route_decision decided =
             (if py_lower (py_strip content) \<in> set valid_routes
              then py_lower (py_strip content) else ''full_pipeline'')
         \<and> route_decision decided \<in> set valid_routes
         \<and> map_of conditional_edges (route_condition decided) = Some entry
         \<and> run_graph e state = Inr (run_from e entry decided [])"
proof -
  let ?r = "validate_route content"
  let ?d = "record_decision ?r state"
  have d: "make_routing_decision e state = Inr ?d"
    by (rule make_routing_decision_Inr [OF assms])
  have v: "?r \<in> set valid_routes"
    by (rule validate_route_valid)
  from conditional_edges_valid [OF v] obtain entry
    where entry: "map_of conditional_edges ?r = Some entry" ..
  have "run_graph e state = Inr (run_from e entry ?d [])"
    by (rule run_graph_Inr [OF assms entry])
  with d v entry show ?thesis
    by (auto simp: route_condition_def validate_route_eq [symmetric])
qed

theorem routing_decision_fails_open_witness:
  "classify (offline_env ''Not sure, maybe both?'') (query (initial_state ''Please help'')) =
     Inr ''Not sure, maybe both?''
   \<and> py_lower (py_strip ''Not sure, maybe both?'') \<notin> set valid_routes
   \<and> (\<exists>decided.
         make_routing_decision (offline_env ''Not sure, maybe both?'') (initial_state ''Please help'')
           = Inr decided
       \<and> route_decision decided = ''full_pipeline''
       \<and> run_graph (offline_env ''Not sure, maybe both?'') (initial_state ''Please help'')
           = Inr (run_from (offline_env ''Not sure, maybe both?'') DocumentProcessing decided []))"
proof -
  have h: "classify (offline_env ''Not sure, maybe both?'') (query (initial_state ''Please help''))
             = Inr ''Not sure, maybe both?''"
    by (simp add: offline_env_def)
  have n: "py_lower (py_strip ''Not sure, maybe both?'') \<notin> set valid_routes"
    by code_simp
  from routing_decision_fails_open [OF h] n show ?thesis
    using h by (auto simp: route_condition_def conditional_edges_def)
qed

text \<open>
  Claim C5. The label chooses the entry stage only. \<open>risk_only\<close> runs the risk
  assessment, the compliance check and the aggregation, and leaves \<open>document_data\<close>
  empty; \<open>compliance_only\<close> runs the compliance check and the aggregation, and leaves
  \<open>document_data\<close> and \<open>risk_assessment\<close> empty; \<open>document_only\<close> and
  \<open>full_pipeline\<close> both run all four stages from the document stage, and the three
  slots they leave are the same function of the environment and the query.
\<close>

theorem route_label_is_entry_point:
  assumes "classify e q = Inr content"
  shows "(validate_route content = ''risk_only'' \<longrightarrow>
            (\<exists>final. run_graph e (initial_state q)
                        = Inr (final, [RiskAssessment, ComplianceCheck, FinalAggregation])
                    \<and> document_data final = JObj []))
       \<and> (validate_route content = ''compliance_only'' \<longrightarrow>
            (\<exists>final. run_graph e (initial_state q) = Inr (final, [ComplianceCheck, FinalAggregation])
                    \<and> document_data final = JObj [] \<and> risk_assessment final = JObj []))
       \<and> (validate_route content = ''document_only'' \<or> validate_route content = ''full_pipeline'' \<longrightarrow>
            (\<exists>final. run_graph e (initial_state q)
                        = Inr (final, [DocumentProcessing, RiskAssessment, ComplianceCheck,
                                       FinalAggregation])
                    \<and> document_data final = document_data (process_document e (initial_state q))
                    \<and> risk_assessment final
                        = risk_assessment (assess_risk e (process_document e (initial_state q)))
                    \<and> compliance_result final
                        = compliance_result (check_compliance e
                            (assess_risk e (process_document e (initial_state q))))))"
proof -
  let ?r = "validate_route content"
  let ?s = "record_decision ?r (initial_state q)"
  have c: "classify e (query (initial_state q)) = Inr content"
    using assms by (simp add: initial_state_def)
  have run: "map_of conditional_edges ?r = Some entry \<Longrightarrow>
             run_graph e (initial_state q) = Inr (run_from e entry ?s [])" for entry
    by (rule run_graph_Inr [OF c])
  have fresh: "document_data ?s = JObj []" "risk_assessment ?s = JObj []"
    by (simp_all add: initial_state_def)
  have risk: "?r = ''risk_only'' \<Longrightarrow>
      \<exists>final. run_graph e (initial_state q)
                = Inr (final, [RiskAssessment, ComplianceCheck, FinalAggregation])
            \<and> document_data final = JObj []"
    using run [of RiskAssessment] fresh
    by (simp add: conditional_edges_def run_from_RiskAssessment)
  have compliance: "?r = ''compliance_only'' \<Longrightarrow>
      \<exists>final. run_graph e (initial_state q) = Inr (final, [ComplianceCheck, FinalAggregation])
            \<and> document_data final = JObj [] \<and> risk_assessment final = JObj []"
    using run [of ComplianceCheck] fresh
    by (simp add: conditional_edges_def run_from_ComplianceCheck)
  have full: "?r = ''document_only'' \<or> ?r = ''full_pipeline'' \<Longrightarrow>
      \<exists>final. run_graph e (initial_state q)
                = Inr (final, [DocumentProcessing, RiskAssessment, ComplianceCheck, FinalAggregation])
            \<and> document_data final = document_data (process_document e (initial_state q))
            \<and> risk_assessment final
                = risk_assessment (assess_risk e (process_document e (initial_state q)))
            \<and> compliance_result final
                = compliance_result (check_compliance e
                    (assess_risk e (process_document e (initial_state q))))"
  proof -
    assume "?r = ''document_only'' \<or> ?r = ''full_pipeline''"
    then have "map_of conditional_edges ?r = Some DocumentProcessing"
      by (auto simp: conditional_edges_def)
    from run [OF this]
    have g: "run_graph e (initial_state q) = Inr (run_from e DocumentProcessing ?s [])" .
    have v: "snd (run_from e DocumentProcessing ?s [])
               = [DocumentProcessing, RiskAssessment, ComplianceCheck, FinalAggregation]"
      by (simp add: run_from_DocumentProcessing)
    show ?thesis
      using g v full_run_slots [of e ?r q]
      by (intro exI [of _ "fst (run_from e DocumentProcessing ?s [])"]) (simp add: prod_eq_iff)
  qed
  from risk compliance full show ?thesis by blast
qed

theorem route_label_is_entry_point_witness:
  "classify (offline_env ''risk_only'') ''Assess the risk'' = Inr ''risk_only''
   \<and> validate_route ''risk_only'' = ''risk_only''
   \<and> (\<exists>final. run_graph (offline_env ''risk_only'') (initial_state ''Assess the risk'')
                 = Inr (final, [RiskAssessment, ComplianceCheck, FinalAggregation])
             \<and> document_data final = JObj [])
   \<and> classify (offline_env '' Compliance_Only '') ''Check compliance'' = Inr '' Compliance_Only ''
   \<and> validate_route '' Compliance_Only '' = ''compliance_only''
   \<and> (\<exists>final. run_graph (offline_env '' Compliance_Only '') (initial_state ''Check compliance'')
                 = Inr (final, [ComplianceCheck, FinalAggregation])
             \<and> document_data final = JObj [] \<and> risk_assessment final = JObj [])
   \<and> classify (offline_env ''document_only'') ''Read the file'' = Inr ''document_only''
   \<and> validate_route ''document_only'' = ''document_only''
   \<and> (\<exists>final. run_graph (offline_env ''document_only'') (initial_state ''Read the file'')
                 = Inr (final, [DocumentProcessing, RiskAssessment, ComplianceCheck,
                                FinalAggregation]))"
proof -
  have c1: "classify (offline_env ''risk_only'') ''Assess the risk'' = Inr ''risk_only''"
    by (simp add: offline_env_def)
  have v1: "validate_route ''risk_only'' = ''risk_only''"
    by code_simp
  from route_label_is_entry_point [OF c1] v1
  have r1: "\<exists>final. run_graph (offline_env ''risk_only'') (initial_state ''Assess the risk'')
                 = Inr (final, [RiskAssessment, ComplianceCheck, FinalAggregation])
             \<and> document_data final = JObj []"
    by blast
  have c2: "classify (offline_env '' Compliance_Only '') ''Check compliance''
              = Inr '' Compliance_Only ''"
    by (simp add: offline_env_def)
  have v2: "validate_route '' Compliance_Only '' = ''compliance_only''"
    by code_simp
  from route_label_is_entry_point [OF c2] v2
  have r2: "\<exists>final. run_graph (offline_env '' Compliance_Only '') (initial_state ''Check compliance'')
                 = Inr (final, [ComplianceCheck, FinalAggregation])
             \<and> document_data final = JObj [] \<and> risk_assessment final = JObj []"
    by blast
  have c3: "classify (offline_env ''document_only'') ''Read the file'' = Inr ''document_only''"
    by (simp add: offline_env_def)
  have v3: "validate_route ''document_only'' = ''document_only''"
    by code_simp
  from route_label_is_entry_point [OF c3] v3
  have r3: "\<exists>final. run_graph (offline_env ''document_only'') (initial_state ''Read the file'')
                 = Inr (final, [DocumentProcessing, RiskAssessment, ComplianceCheck,
                                FinalAggregation])"
    by blast
  from c1 v1 r1 c2 v2 r2 c3 v3 r3 show ?thesis by blast
qed

section \<open>Failures of the aggregation\<close>

text \<open>
  Claim C3, as the code has it. When the report renderer fails, the final result keeps
  the stage slots, the processing summary and the summary, and has no report path. When
  the summarization fails, the aggregation stores \<open>{error: Aggregation failed: ...}\<close> as
  the final result, without the stage slots and the processing summary. In both cases
  \<^verbatim>\<open>process_query\<close> returns a dictionary to its caller once the agent is created.
\<close>

theorem aggregation_failures:
  assumes "collect_results state = Inr collected"
  shows "(summarize e (JObj collected) = Inr summary \<longrightarrow>
          render_pdf e (JObj (collected @ [(''summary'', JStr summary)])) = Inl x \<longrightarrow>
            json_get (final_result (aggregate_results e state)) ''document_data''
              = Some (document_data state)
          \<and> json_get (final_result (aggregate_results e state)) ''risk_assessment''
              = Some (risk_assessment state)
          \<and> json_get (final_result (aggregate_results e state)) ''compliance_result''
              = Some (compliance_result state)
          \<and> json_get (final_result (aggregate_results e state)) ''processing_summary'' \<noteq> None
          \<and> json_get (final_result (aggregate_results e state)) ''summary'' = Some (JStr summary)
          \<and> json_get (final_result (aggregate_results e state)) ''output_pdf_path'' = None)
       \<and> (summarize e (JObj collected) = Inl x \<longrightarrow>
            final_result (aggregate_results e state) = error_slot ''Aggregation failed: '' x)
       \<and> (create_agent e = None \<longrightarrow> (\<exists>result. process_query e q = Inr result))"
proof -
  note keys = collect_results_keys [OF assms]
  have report: "summarize e (JObj collected) = Inr summary \<Longrightarrow>
      render_pdf e (JObj (collected @ [(''summary'', JStr summary)])) = Inl x \<Longrightarrow>
      final_result (aggregate_results e state) = JObj (collected @ [(''summary'', JStr summary)])"
    by (rule aggregate_without_report [OF assms])
  have summary: "summarize e (JObj collected) = Inl x \<Longrightarrow>
      final_result (aggregate_results e state) = error_slot ''Aggregation failed: '' x"
    by (rule aggregate_without_summary [OF assms])
  show ?thesis
    using keys report summary process_query_returns [of e q]
    by (auto simp: map_add_def split: option.splits)
qed

theorem aggregation_failures_witness:
  "collect_results (initial_state ''Process the application'')
     = Inr [(''routing_decision'', JStr []), (''document_data'', JObj []),
            (''risk_assessment'', JObj []), (''compliance_result'', JObj []),
            (''processing_summary'', JObj [(''total_steps'', JNum 4), (''successful_steps'', JNum 4),
                                          (''agent'', JStr ''RoutingAgent'')])]
   \<and> json_get (final_result (aggregate_results no_report_env (initial_state ''Process the application'')))
        ''processing_summary'' \<noteq> None
   \<and> json_get (final_result (aggregate_results no_report_env (initial_state ''Process the application'')))
        ''summary'' = Some (JStr ''Summary of the workflow'')
   \<and> json_get (final_result (aggregate_results no_report_env (initial_state ''Process the application'')))
        ''output_pdf_path'' = None
   \<and> final_result (aggregate_results no_summary_env (initial_state ''Process the application''))
       = error_slot ''Aggregation failed: '' (Exn TransportError ''service unavailable'')
   \<and> (\<exists>result. process_query no_summary_env ''Process the application'' = Inr result)"
proof -
  let ?s = "initial_state ''Process the application''"
  let ?c = "[(''routing_decision'', JStr []), (''document_data'', JObj []),
            (''risk_assessment'', JObj []), (''compliance_result'', JObj []),
            (''processing_summary'', JObj [(''total_steps'', JNum 4), (''successful_steps'', JNum 4),
                                          (''agent'', JStr ''RoutingAgent'')])]"
  have c: "collect_results ?s = Inr ?c"
    by code_simp
  have s1: "summarize no_report_env (JObj ?c) = Inr ''Summary of the workflow''"
    by (simp add: no_report_env_def offline_env_def)
  have p1: "render_pdf no_report_env (JObj (?c @ [(''summary'', JStr ''Summary of the workflow'')]))
              = Inl (Exn ValueError ''cannot write the report'')"
    by (simp add: no_report_env_def offline_env_def)
  from aggregation_failures [OF c, of no_report_env "''Summary of the workflow''"
         "Exn ValueError ''cannot write the report''"] s1 p1
  have r1: "json_get (final_result (aggregate_results no_report_env ?s)) ''processing_summary'' \<noteq> None"
    and r2: "json_get (final_result (aggregate_results no_report_env ?s)) ''summary''
               = Some (JStr ''Summary of the workflow'')"
    and r3: "json_get (final_result (aggregate_results no_report_env ?s)) ''output_pdf_path'' = None"
    by blast+
  have s2: "summarize no_summary_env (JObj ?c) = Inl (Exn TransportError ''service unavailable'')"
    by (simp add: no_summary_env_def offline_env_def)
  have a2: "create_agent no_summary_env = None"
    by (simp add: no_summary_env_def offline_env_def)
  from aggregation_failures [OF c, of no_summary_env _ "Exn TransportError ''service unavailable''"
         "''Process the application''"] s2 a2
  have r4: "final_result (aggregate_results no_summary_env ?s)
             = error_slot ''Aggregation failed: '' (Exn TransportError ''service unavailable'')"
    and r5: "\<exists>result. process_query no_summary_env ''Process the application'' = Inr result"
    by blast+
  from c r1 r2 r3 r4 r5 show ?thesis by blast
qed

text \<open>
  Claim C3 as stated fails for the summarization: when it raises, the final result is
  the error dictionary alone, with no stage slot and no processing summary.
\<close>

theorem summarizer_failure_replaces_final_result:
  "process_query no_summary_env ''Process the application''
     = Inr (JObj [(''error'', JStr ''Aggregation failed: service unavailable'')])
   \<and> result_field (process_query no_summary_env ''Process the application'') ''processing_summary''
     = None
   \<and> result_field (process_query no_summary_env ''Process the application'') ''document_data''
     = None"
  by code_simp

section \<open>The example applicant\<close>

text \<open>
  The compliance check approves exactly when the credit score it reads is at least 620,
  the debt-to-income ratio at most 43 and the annual income at least 30000.
\<close>

lemma compliance_approved_iff:
  assumes "extract_metrics data = Inr m"
      and "py_num (m_credit_score m) = Inr credit_score"
      and "py_num (m_debt_to_income m) = Inr debt_to_income"
      and "py_num (m_annual_income m) = Inr annual_income"
  shows "result_field (analyze_structured_data data) ''approved''
           = Some (JBool (620 \<le> credit_score \<and> debt_to_income \<le> 43 \<and> 30000 \<le> annual_income))"
  using assms
  by (auto simp: analyze_structured_data_def bindE_def result_field_def credit_score_check_def
        debt_to_income_check_def income_check_def Let_def)


text \<open>
  The compliance check reads the credit score under the key \<open>credit_score\<close>. The
  dictionary returned by \<open>assess_credit_risk\<close> holds it under \<open>credit_score_estimate\<close>
  (and inside \<open>metrics\<close>), so the check of that dictionary reads a score of 0 and does
  not approve.
\<close>

lemma risk_result_read_by_compliance:
  "result_field (bindE (assess_credit_risk example_financial_data) analyze_structured_data)
     ''approved'' = Some (JBool False)"
  by code_simp

end
